theory Spec2Isabelle
  imports Main "HOL-Library.Word"
begin

section \<open>Values of the host language\<close>

text \<open>
  The content of an \<open>ArrayBuffer\<close> is a list of bytes. A \<open>Uint8Array\<close> is a view of
  an \<open>ArrayBuffer\<close>: the buffer, the offset of its first element and its \<open>length\<close>.
  Its elements are the bytes of the window; \<open>.buffer\<close> is the whole buffer, whatever
  the window. The arrays a caller hands to \<open>signFile\<close>, \<open>verifyFileSignature\<close> and the
  JPEG functions are views, since the code reads both their \<open>.buffer\<close> and their
  \<open>length\<close>. An array the library builds itself (\<open>new Uint8Array(n)\<close>, the result of
  \<open>hexToBuffer\<close>, \<open>new Uint8Array(hashBuffer)\<close>) spans a buffer of its own and is
  written as the list of its bytes. A key is written as the bytes that reach
  \<open>importKey\<close>.
  A JavaScript string is modelled by the list of its code units, each below 256
  (\<open>length\<close> is \<open>.length\<close>, \<open>take\<close>/\<open>drop\<close> give \<open>substring\<close>).
\<close>

type_synonym byte = "8 word"
type_synonym bytes = "byte list"

text \<open>A JavaScript number as far as \<open>parseInt\<close> produces one: an integer or \<open>NaN\<close>.\<close>

datatype jsnum = NaN | Num int

text \<open>What the library and the platform functions it calls can throw.\<close>

datatype error =
    Error string
  | TypeError
  | RangeError
  | DataError
  | NetworkError
  | LibraryError string

section \<open>Codec (src/util.ts)\<close>

subsection \<open>\<open>bufferToHex\<close>\<close>

definition hexDigitChar :: "nat \<Rightarrow> char" where
  "hexDigitChar d = ''0123456789abcdef'' ! d"

text \<open>\<open>Number.prototype.toString(16)\<close> on a non-negative integer.\<close>

function toString16 :: "nat \<Rightarrow> string" where
  "toString16 n =
     (if n < 16 then [hexDigitChar n]
      else toString16 (n div 16) @ [hexDigitChar (n mod 16)])"
  by pat_completeness auto
termination
  by (relation "measure (\<lambda>n. n)") auto

declare toString16.simps [simp del]

text \<open>\<open>String.prototype.padStart(n, c)\<close> with a one-character pad string.\<close>

definition padStart :: "nat \<Rightarrow> char \<Rightarrow> string \<Rightarrow> string" where
  "padStart n c s = replicate (n - length s) c @ s"

text \<open>
  \<^verbatim>\<open>Array.from(buffer).map(b => b.toString(16).padStart(2, '0')).join('')\<close>
\<close>

definition bufferToHex :: "bytes \<Rightarrow> string" where
  "bufferToHex buffer =
     concat (map (\<lambda>b. padStart 2 (CHR ''0'') (toString16 (unat b))) buffer)"

subsection \<open>\<open>hexToBuffer\<close>\<close>

text \<open>
  \<open>parseInt(s, 16)\<close>: leading white space is skipped, then an optional sign, then an
  optional \<open>0x\<close>/\<open>0X\<close>, then the longest run of hexadecimal digits; no digit gives
  \<open>NaN\<close>. The white space characters below 256 are TAB, LF, VT, FF, CR, SP and NBSP.
\<close>

definition isStrWhiteSpaceChar :: "char \<Rightarrow> bool" where
  "isStrWhiteSpaceChar c = (of_char c \<in> set [9, 10, 11, 12, 13, 32, 160 :: nat])"

definition hexDigitValue :: "char \<Rightarrow> nat option" where
  "hexDigitValue c =
     (let k = (of_char c :: nat) in
      if 48 \<le> k \<and> k \<le> 57 then Some (k - 48)
      else if 97 \<le> k \<and> k \<le> 102 then Some (k - 87)
      else if 65 \<le> k \<and> k \<le> 70 then Some (k - 55)
      else None)"

definition isHexDigit :: "char \<Rightarrow> bool" where
  "isHexDigit c = (hexDigitValue c \<noteq> None)"

definition hexValue :: "string \<Rightarrow> nat" where
  "hexValue z =
     foldl (\<lambda>acc c. 16 * acc + (case hexDigitValue c of Some d \<Rightarrow> d | None \<Rightarrow> 0)) 0 z"

definition parseInt16 :: "string \<Rightarrow> jsnum" where
  "parseInt16 str =
     (let s1 = dropWhile isStrWhiteSpaceChar str;
          sign = (if s1 \<noteq> [] \<and> hd s1 = CHR ''-'' then - 1 else 1 :: int);
          s2 = (if s1 \<noteq> [] \<and> (hd s1 = CHR ''+'' \<or> hd s1 = CHR ''-'') then tl s1 else s1);
          s3 = (if 2 \<le> length s2 \<and> (take 2 s2 = ''0x'' \<or> take 2 s2 = ''0X'')
                then drop 2 s2 else s2);
          z = takeWhile isHexDigit s3
      in if z = [] then NaN else Num (sign * int (hexValue z)))"

text \<open>Storing a number into a \<open>Uint8Array\<close> element: \<open>NaN\<close> becomes 0, an integer wraps modulo 256.\<close>

fun toUint8 :: "jsnum \<Rightarrow> byte" where
  "toUint8 NaN = 0"
| "toUint8 (Num i) = word_of_int i"

text \<open>\<open>hex.substring(i, j)\<close> for \<open>i \<le> j\<close>.\<close>

definition substring :: "string \<Rightarrow> nat \<Rightarrow> nat \<Rightarrow> string" where
  "substring s i j = take (j - i) (drop i s)"

text \<open>
  The loop \<^verbatim>\<open>for (let i = 0; i < hex.length; i += 2) bytes[i / 2] = parseInt(...)\<close>.
  A store past the end of a typed array is ignored, as list update is.
\<close>

function hexToBuffer_loop :: "string \<Rightarrow> nat \<Rightarrow> bytes \<Rightarrow> bytes" where
  "hexToBuffer_loop hex i bytes =
     (if i < length hex
      then hexToBuffer_loop hex (i + 2)
             (bytes[i div 2 := toUint8 (parseInt16 (substring hex i (i + 2)))])
      else bytes)"
  by pat_completeness auto
termination
  by (relation "measure (\<lambda>(hex, i, bytes). length hex - i)") auto

declare hexToBuffer_loop.simps [simp del]

text \<open>\<open>new Uint8Array(hex.length / 2)\<close> truncates a fractional length and is zero-filled.\<close>

definition hexToBuffer :: "string \<Rightarrow> bytes" where
  "hexToBuffer hex = hexToBuffer_loop hex 0 (replicate (length hex div 2) 0)"

text \<open>The characters \<open>bufferToHex\<close> is meant to produce.\<close>

definition isLowerHexChar :: "char \<Rightarrow> bool" where
  "isLowerHexChar c = (c \<in> set ''0123456789abcdef'')"

text \<open>Decimal rendering of a non-negative integer, as a template literal does it.\<close>

function toString10 :: "nat \<Rightarrow> string" where
  "toString10 n =
     (if n < 10 then [hexDigitChar n]
      else toString10 (n div 10) @ [hexDigitChar (n mod 10)])"
  by pat_completeness auto
termination
  by (relation "measure (\<lambda>n. n)") auto

declare toString10.simps [simp del]

section \<open>The platform\<close>

text \<open>
  The functions of the host that the library calls are parameters of the model:
  \<open>crypto.subtle\<close> (SHA-256 and Ed25519), the \<open>asn1\<close> package, \<open>btoa\<close>,
  \<open>TextDecoder\<close>, \<open>Date\<close> and the version string of \<open>package.json\<close>.
  \<open>'pub\<close> and \<open>'priv\<close> are the \<open>CryptoKey\<close> handles for verifying and for signing.
  \<open>importKey\<close> rejects key data it cannot read; that is the result \<open>None\<close>.
\<close>

text \<open>
  A property read off a plain object is an own string property or a member inherited from
  \<open>Object.prototype\<close> (a function or an object, so never a string).
\<close>

datatype jsval = Str string | Inherited string

text \<open>
  The verbose result of \<open>ASN1.parse\<close>: a node may carry a \<open>value\<close> and may carry
  \<open>children\<close>.
\<close>

datatype asn1node = Asn1Node (nodeValue: "bytes option") (nodeChildren: "asn1node list option")

datatype asn1parsed = ParsedArray | ParsedNothing | ParsedObject asn1node

text \<open>A \<open>Date\<close>: an instant in milliseconds since the epoch, or the invalid date.\<close>

datatype jsdate = Instant int | InvalidDate

record ('pub, 'priv) platform =
  digest :: "bytes \<Rightarrow> bytes"
  importKey_raw :: "bytes \<Rightarrow> 'pub option"
  importKey_pkcs8 :: "bytes \<Rightarrow> 'priv option"
  sign :: "'priv \<Rightarrow> bytes \<Rightarrow> bytes"
  verify :: "'pub \<Rightarrow> bytes \<Rightarrow> bytes \<Rightarrow> bool"
  ASN1_Any :: "string \<Rightarrow> jsval list \<Rightarrow> error + string"
  ASN1_UInt :: "string \<Rightarrow> error + string"
  ASN1_parse :: "bytes \<Rightarrow> error + asn1parsed"
  btoa :: "string \<Rightarrow> string"
  textDecode :: "bytes \<Rightarrow> string"
  dateFallback :: "string \<Rightarrow> jsdate"
  instantToISO :: "int \<Rightarrow> string"
  pkgVersion :: "string"

text \<open>
  What the outside world answers during one call of the library: the clock
  (\<open>new Date().toISOString()\<close>), the random source
  (\<open>crypto.getRandomValues(new Uint8Array(8))\<close>) and the network (\<open>fetch\<close>, a POST of
  a body to a URL, which may reject).
\<close>

record response =
  ok :: bool
  status :: nat
  arrayBuffer :: bytes

record world =
  now :: string
  randomValues :: bytes
  fetch :: "string \<Rightarrow> bytes \<Rightarrow> error + response"

text \<open>Sequencing of calls that may throw.\<close>

definition bindE :: "error + 'a \<Rightarrow> ('a \<Rightarrow> error + 'b) \<Rightarrow> error + 'b" where
  "bindE m f = (case m of Inl e \<Rightarrow> Inl e | Inr x \<Rightarrow> f x)"

text \<open>\<open>a || d\<close> on an optional string: \<open>undefined\<close> and the empty string are falsy.\<close>

definition orElse :: "string option \<Rightarrow> string \<Rightarrow> string" where
  "orElse a d = (case a of None \<Rightarrow> d | Some s \<Rightarrow> if s = [] then d else s)"

text \<open>\<open>xs?.[i]\<close>: \<open>undefined\<close> past the end.\<close>

definition nthOpt :: "'a list \<Rightarrow> nat \<Rightarrow> 'a option" where
  "nthOpt xs i = (if i < length xs then Some (xs ! i) else None)"

subsection \<open>\<open>bufferToBase64\<close> (src/util.ts)\<close>

definition bufferToBase64 :: "('pub, 'priv) platform \<Rightarrow> bytes \<Rightarrow> string" where
  "bufferToBase64 pf buffer = btoa pf (map (\<lambda>b. char_of (unat b)) buffer)"

subsection \<open>\<open>TextEncoder.encode\<close>\<close>

text \<open>UTF-8 of a string whose code units are below 256: one byte below 128, two bytes from 128 on.\<close>

definition utf8Encode :: "string \<Rightarrow> bytes" where
  "utf8Encode s =
     concat (map (\<lambda>c. let k = (of_char c :: nat) in
                        if k < 128 then [of_nat k]
                        else [of_nat (192 + k div 64), of_nat (128 + k mod 64)]) s)"

section \<open>Data model (src/index.ts)\<close>

text \<open>
  Field names are the source's. Where two interfaces share a field name, the later one
  carries a prefix: \<open>cs_\<close> (ContentSignature), \<open>rev_\<close> (ContentRevision), \<open>sc_\<close>
  (SignedContent), \<open>si_\<close> (FileSignature.signature), \<open>fs_\<close> (FileSignature),
  \<open>m_\<close> (Manifest), \<open>md_\<close> and \<open>cm_\<close> (the two metadata arguments).
\<close>

record Keypair =
  publicKey :: bytes
  privateKey :: bytes

record ContentSignature =
  contentHash :: string
  signature :: string
  cs_publicKey :: string
  timestamp :: string

record TimestampedSignature = ContentSignature +
  tsaToken :: string
  verifiedTimestamp :: string

record ContentRevision =
  content :: string
  rev_signature :: TimestampedSignature
  previousHash :: "string option"

datatype json =
    JUndefined
  | JString string
  | JArray "json list"
  | JObject "(string \<times> json) list"

record Manifest =
  claim_generator_info :: string
  m_title :: string
  assertions :: "(string \<times> json) list"
  m_signature :: "string \<times> string"

record SignedContent =
  sc_content :: string
  revisions :: "ContentRevision list"
  c2paManifest :: "Manifest option"

record Timestamp =
  authority :: string
  token :: string
  verifiedAt :: string

record FileInfo =
  name :: string
  hash :: string
  fsize :: int
  mimeType :: "string option"

record SignatureInfo =
  algorithm :: string
  si_publicKey :: string
  si_signature :: string
  signedAt :: string

record Metadata =
  author :: "string option"
  title :: "string option"
  description :: "string option"
  md_mimeType :: "string option"
  extra :: "(string \<times> json) list"

record FileSignature =
  version :: string
  fs_file :: FileInfo
  fs_signature :: SignatureInfo
  fs_timestamp :: Timestamp
  metadata :: "Metadata option"

record ContentMetadata =
  cm_title :: "string option"
  cm_author :: "string option"
  cm_description :: "string option"

record TSAConfig =
  url :: string
  hashAlgorithm :: "string option"
  policyOID :: "string option"

text \<open>The result of a verification: \<open>{ valid, errors }\<close>.\<close>

record VerifyResult =
  valid :: bool
  errors :: "string list"

section \<open>Crypto utilities (src/index.ts)\<close>

definition hashContent :: "('pub, 'priv) platform \<Rightarrow> string \<Rightarrow> bytes" where
  "hashContent pf c = digest pf (utf8Encode c)"

text \<open>
  \<open>signHash\<close> takes the private key as raw PKCS8 bytes, which it imports, or as a
  \<open>CryptoKey\<close>, which it uses as it is.
\<close>

datatype 'priv privateKeyArg = KeyBytes bytes | KeyHandle 'priv

definition signHash ::
  "('pub, 'priv) platform \<Rightarrow> bytes \<Rightarrow> 'priv privateKeyArg \<Rightarrow> error + string" where
  "signHash pf h pk =
     bindE (case pk of
              KeyHandle k \<Rightarrow> Inr k
            | KeyBytes bs \<Rightarrow>
                (case importKey_pkcs8 pf bs of None \<Rightarrow> Inl DataError | Some k \<Rightarrow> Inr k))
       (\<lambda>key. Inr (bufferToHex (sign pf key h)))"

definition verifySignature ::
  "('pub, 'priv) platform \<Rightarrow> string \<Rightarrow> string \<Rightarrow> bytes \<Rightarrow> error + bool" where
  "verifySignature pf h sg pk =
     (case importKey_raw pf pk of
        None \<Rightarrow> Inl DataError
      | Some key \<Rightarrow>
          (let signatureBytes = hexToBuffer sg
           in Inr (verify pf key signatureBytes (hexToBuffer h))))"

section \<open>RFC 3161 TSA integration (src/index.ts)\<close>

subsection \<open>\<open>createTimeStampRequest\<close>\<close>

text \<open>
  The table \<open>oids\<close> is an object literal, so \<open>oids[hashAlg]\<close> finds the three own
  properties and, failing those, what every object inherits from \<open>Object.prototype\<close>.
\<close>

definition oids :: "(string \<times> string) list" where
  "oids =
     [(''sha256'', ''608648016503040201''),
      (''sha384'', ''608648016503040202''),
      (''sha512'', ''608648016503040203'')]"

definition objectPrototypeKeys :: "string list" where
  "objectPrototypeKeys =
     [''constructor'', ''hasOwnProperty'', ''isPrototypeOf'', ''propertyIsEnumerable'',
      ''toLocaleString'', ''toString'', ''valueOf'', ''__proto__'',
      ''__defineGetter__'', ''__defineSetter__'', ''__lookupGetter__'', ''__lookupSetter__'']"

definition getProperty :: "(string \<times> string) list \<Rightarrow> string \<Rightarrow> jsval option" where
  "getProperty obj k =
     (case map_of obj k of
        Some v \<Rightarrow> Some (Str v)
      | None \<Rightarrow> if k \<in> set objectPrototypeKeys then Some (Inherited k) else None)"

fun truthy :: "jsval \<Rightarrow> bool" where
  "truthy (Str s) = (s \<noteq> [])"
| "truthy (Inherited k) = True"

text \<open>
  \<^verbatim>\<open>const hashAlg = config.hashAlgorithm || 'sha256'\<close> and
  \<^verbatim>\<open>const oid = oids[hashAlg] || oids.sha256\<close>.
\<close>

definition selectOid :: "TSAConfig \<Rightarrow> jsval" where
  "selectOid config =
     (let hashAlg = orElse (hashAlgorithm config) ''sha256''
      in case getProperty oids hashAlg of
           Some v \<Rightarrow> if truthy v then v else Str ''608648016503040201''
         | None \<Rightarrow> Str ''608648016503040201'')"

text \<open>
  The DER of the request, built inside out as the nested calls of \<open>ASN1.Any\<close> and
  \<open>ASN1.UInt\<close> evaluate; the first argument is the nonce drawn for this call.
\<close>

definition createTimeStampRequest ::
  "('pub, 'priv) platform \<Rightarrow> bytes \<Rightarrow> string \<Rightarrow> TSAConfig \<Rightarrow> error + bytes" where
  "createTimeStampRequest pf nonce h config =
     (let hashBytes = hexToBuffer h;
          oid = selectOid config
      in bindE (ASN1_Any pf ''06'' [oid]) (\<lambda>algorithm.
         bindE (ASN1_Any pf ''05'' [Str '''']) (\<lambda>params.
         bindE (ASN1_Any pf ''30'' [Str algorithm, Str params]) (\<lambda>algorithmIdentifier.
         bindE (ASN1_Any pf ''04'' [Str (bufferToHex hashBytes)]) (\<lambda>hashedMessage.
         bindE (ASN1_Any pf ''30'' [Str algorithmIdentifier, Str hashedMessage]) (\<lambda>messageImprint.
         bindE (ASN1_UInt pf ''01'') (\<lambda>ver.
         bindE (ASN1_UInt pf (bufferToHex nonce)) (\<lambda>nonceInt.
         bindE (ASN1_Any pf ''01'' [Str ''01'']) (\<lambda>certReq.
         bindE (ASN1_Any pf ''30'' [Str ver, Str messageImprint, Str nonceInt, Str certReq])
           (\<lambda>request. Inr (hexToBuffer request)))))))))))"

subsection \<open>The \<open>genTime\<close> string\<close>

definition isDigit :: "char \<Rightarrow> bool" where
  "isDigit c = (48 \<le> (of_char c :: nat) \<and> (of_char c :: nat) \<le> 57)"

text \<open>
  The match of
  \<^verbatim>\<open>/^(\d{4})(\d{2})(\d{2})(\d{2})(\d{2})(\d{2})(?:\.(\d+))?Z$/\<close>
  against the whole string: the six captured fields and the optional fraction.
\<close>

record GenTimeMatch =
  year :: string
  month :: string
  day :: string
  hour :: string
  minute :: string
  second :: string
  fraction :: "string option"

definition matchGenTime :: "string \<Rightarrow> GenTimeMatch option" where
  "matchGenTime s =
     (let d = take 14 s; r = drop 14 s
      in if length d = 14 \<and> list_all isDigit d then
           (let fields = \<lparr> year = take 4 d, month = take 2 (drop 4 d), day = take 2 (drop 6 d),
                           hour = take 2 (drop 8 d), minute = take 2 (drop 10 d),
                           second = take 2 (drop 12 d), fraction = None \<rparr>
            in case r of
                 [] \<Rightarrow> None
               | c # r' \<Rightarrow>
                   if c = CHR ''.'' \<and> takeWhile isDigit r' \<noteq> [] \<and> dropWhile isDigit r' = ''Z''
                   then Some (fields \<lparr> fraction := Some (takeWhile isDigit r') \<rparr>)
                   else if r = ''Z'' then Some fields
                   else None)
         else None)"

text \<open>The template literal that turns the match into an ISO 8601 string.\<close>

definition isoString :: "GenTimeMatch \<Rightarrow> string" where
  "isoString m =
     year m @ ''-'' @ month m @ ''-'' @ day m @ ''T'' @ hour m @ '':'' @ minute m @ '':'' @ second m
       @ (case fraction m of Some f \<Rightarrow> (if f \<noteq> [] then ''.'' @ f else '''') | None \<Rightarrow> '''')
       @ ''Z''"

subsection \<open>\<open>new Date(isoString)\<close>\<close>

text \<open>
  ECMAScript fixes what \<open>Date\<close> makes of a string in its date-time format
  \<open>YYYY-MM-DDTHH:mm:ss[.sss]Z\<close> with every field in range; for any other string the
  result is up to the implementation (\<open>dateFallback\<close>).
\<close>

definition decimalValue :: "string \<Rightarrow> nat" where
  "decimalValue z = foldl (\<lambda>acc c. 10 * acc + ((of_char c :: nat) - 48)) 0 z"

definition isLeapYear :: "nat \<Rightarrow> bool" where
  "isLeapYear y = ((y mod 4 = 0 \<and> y mod 100 \<noteq> 0) \<or> y mod 400 = 0)"

definition monthLengths :: "nat \<Rightarrow> nat list" where
  "monthLengths y = [31, if isLeapYear y then 29 else 28, 31, 30, 31, 30, 31, 31, 30, 31, 30, 31]"

definition dayFromYear :: "int \<Rightarrow> int" where
  "dayFromYear y = 365 * (y - 1970) + (y - 1969) div 4 - (y - 1901) div 100 + (y - 1601) div 400"

definition makeInstant :: "nat \<Rightarrow> nat \<Rightarrow> nat \<Rightarrow> nat \<Rightarrow> nat \<Rightarrow> nat \<Rightarrow> nat \<Rightarrow> int" where
  "makeInstant y mo d h mi s ms =
     ((dayFromYear (int y) + int (sum_list (take (mo - 1) (monthLengths y))) + int d - 1) * 86400
        + int (h * 3600 + mi * 60 + s)) * 1000 + int ms"

definition isoInstant :: "string \<Rightarrow> int option" where
  "isoInstant s =
     (let digits = (\<lambda>i n. take n (drop i s));
          num = (\<lambda>i n. decimalValue (digits i n));
          y = num 0 4; mo = num 5 2; d = num 8 2; h = num 11 2; mi = num 14 2; sec = num 17 2;
          shape = (list_all isDigit (digits 0 4 @ digits 5 2 @ digits 8 2 @ digits 11 2
                                      @ digits 14 2 @ digits 17 2)
                   \<and> take 1 (drop 4 s) = ''-'' \<and> take 1 (drop 7 s) = ''-''
                   \<and> take 1 (drop 10 s) = ''T'' \<and> take 1 (drop 13 s) = '':''
                   \<and> take 1 (drop 16 s) = '':'');
          range = (1 \<le> mo \<and> mo \<le> 12 \<and> 1 \<le> d \<and> d \<le> monthLengths y ! (mo - 1)
                   \<and> h \<le> 23 \<and> mi \<le> 59 \<and> sec \<le> 59)
      in if shape \<and> range \<and> drop 19 s = ''Z'' then Some (makeInstant y mo d h mi sec 0)
         else if shape \<and> range \<and> length s = 24 \<and> take 1 (drop 19 s) = ''.''
                 \<and> list_all isDigit (digits 20 3) \<and> drop 23 s = ''Z''
         then Some (makeInstant y mo d h mi sec (num 20 3))
         else None)"

definition newDate :: "('pub, 'priv) platform \<Rightarrow> string \<Rightarrow> jsdate" where
  "newDate pf s = (case isoInstant s of Some t \<Rightarrow> Instant t | None \<Rightarrow> dateFallback pf s)"

text \<open>\<open>Date.prototype.toISOString\<close> throws a RangeError on the invalid date.\<close>

definition toISOString :: "('pub, 'priv) platform \<Rightarrow> jsdate \<Rightarrow> error + string" where
  "toISOString pf d = (case d of InvalidDate \<Rightarrow> Inl RangeError | Instant t \<Rightarrow> Inr (instantToISO pf t))"

text \<open>Lines 409 to 422 of \<open>parseTimestampToken\<close>: from the decoded time string to the date.\<close>

definition parseGenTime :: "('pub, 'priv) platform \<Rightarrow> string \<Rightarrow> error + jsdate" where
  "parseGenTime pf timeStr =
     (case matchGenTime timeStr of
        None \<Rightarrow> Inl (Error (''Invalid GeneralizedTime format: '' @ timeStr))
      | Some m \<Rightarrow> Inr (newDate pf (isoString m)))"

subsection \<open>\<open>parseTimestampToken\<close>\<close>

text \<open>
  The walk down the parsed response. \<open>x?.children\<close> of a missing node is
  \<open>undefined\<close>; a \<open>Uint8Array\<close> value is truthy even when empty. The \<open>catch\<close>
  block logs and rethrows, so every failure leaves the function as the error it was.
\<close>

definition childAt :: "asn1node option \<Rightarrow> nat \<Rightarrow> asn1node option" where
  "childAt n i =
     (case n of
        None \<Rightarrow> None
      | Some nd \<Rightarrow> (case nodeChildren nd of None \<Rightarrow> None | Some cs \<Rightarrow> nthOpt cs i))"

definition hasChildren :: "asn1node option \<Rightarrow> bool" where
  "hasChildren n = (case n of None \<Rightarrow> False | Some nd \<Rightarrow> nodeChildren nd \<noteq> None)"

definition valueOf :: "asn1node option \<Rightarrow> bytes option" where
  "valueOf n = (case n of None \<Rightarrow> None | Some nd \<Rightarrow> nodeValue nd)"

definition parseTimestampToken :: "('pub, 'priv) platform \<Rightarrow> bytes \<Rightarrow> error + jsdate" where
  "parseTimestampToken pf tok =
     bindE (ASN1_parse pf tok) (\<lambda>resp.
       case resp of
         ParsedArray \<Rightarrow> Inl (Error ''Expected verbose object, got array'')
       | ParsedNothing \<Rightarrow> Inl (Error ''Invalid TimeStampResp structure'')
       | ParsedObject r \<Rightarrow>
           if \<not> hasChildren (Some r) then Inl (Error ''Invalid TimeStampResp structure'')
           else let timeStampToken = childAt (Some r) 1 in
           if \<not> hasChildren timeStampToken then Inl (Error ''No TimeStampToken in response'')
           else let signedData = childAt (childAt timeStampToken 1) 0 in
           if \<not> hasChildren signedData then Inl (Error ''Invalid SignedData structure'')
           else let encapContentInfo = childAt signedData 2 in
           if \<not> hasChildren encapContentInfo then Inl (Error ''No EncapsulatedContentInfo'')
           else let eContent = childAt (childAt encapContentInfo 1) 0 in
           (case valueOf eContent of
              None \<Rightarrow> Inl (Error ''No eContent found'')
            | Some der \<Rightarrow>
                bindE (ASN1_parse pf der) (\<lambda>tstInfoParsed.
                  case tstInfoParsed of
                    ParsedArray \<Rightarrow> Inl (Error ''Expected verbose TSTInfo object, got array'')
                  | ParsedNothing \<Rightarrow> Inl (Error ''Invalid TSTInfo structure'')
                  | ParsedObject tstInfo \<Rightarrow>
                      if \<not> hasChildren (Some tstInfo) then Inl (Error ''Invalid TSTInfo structure'')
                      else (case valueOf (childAt (Some tstInfo) 4) of
                              None \<Rightarrow> Inl (Error ''No genTime in TSTInfo'')
                            | Some v \<Rightarrow> parseGenTime pf (textDecode pf v)))))"

subsection \<open>\<open>requestTimestamp\<close>\<close>

definition requestTimestamp ::
  "('pub, 'priv) platform \<Rightarrow> world \<Rightarrow> string \<Rightarrow> TSAConfig \<Rightarrow> error + (string \<times> jsdate)" where
  "requestTimestamp pf w h config =
     bindE (createTimeStampRequest pf (randomValues w) h config) (\<lambda>request.
     bindE (fetch w (url config) request) (\<lambda>resp.
       if \<not> ok resp then Inl (Error (''TSA request failed: '' @ toString10 (status resp)))
       else let tokenBuffer = arrayBuffer resp;
                tok = bufferToBase64 pf tokenBuffer
            in bindE (parseTimestampToken pf tokenBuffer) (\<lambda>ts. Inr (tok, ts))))"

section \<open>Core signing functions (src/index.ts)\<close>

definition signContent ::
  "('pub, 'priv) platform \<Rightarrow> world \<Rightarrow> string \<Rightarrow> Keypair \<Rightarrow> error + ContentSignature" where
  "signContent pf w c keypair =
     (let h = hashContent pf c
      in bindE (signHash pf h (KeyBytes (privateKey keypair))) (\<lambda>sg.
           Inr \<lparr> contentHash = bufferToHex h, signature = sg,
                 cs_publicKey = bufferToHex (publicKey keypair), timestamp = now w \<rparr>))"

definition signContentWithTimestamp ::
  "('pub, 'priv) platform \<Rightarrow> world \<Rightarrow> string \<Rightarrow> Keypair \<Rightarrow> TSAConfig
     \<Rightarrow> error + TimestampedSignature" where
  "signContentWithTimestamp pf w c keypair tsaConfig =
     bindE (signContent pf w c keypair) (\<lambda>basicSig.
     bindE (requestTimestamp pf w (contentHash basicSig) tsaConfig) (\<lambda>(tok, ts).
     bindE (toISOString pf ts) (\<lambda>verified.
       Inr \<lparr> contentHash = contentHash basicSig, signature = signature basicSig,
             cs_publicKey = cs_publicKey basicSig, timestamp = timestamp basicSig,
             tsaToken = tok, verifiedTimestamp = verified \<rparr>)))"

section \<open>File signing (src/index.ts)\<close>

text \<open>
  The array of the file's bytes is a view: its \<open>buffer\<close>, its \<open>byteOffset\<close> (where
  the first element lies in the buffer) and its \<open>length\<close> (\<open>arrayLength\<close> here).
\<close>

record Uint8Array =
  buffer :: bytes
  byteOffset :: nat
  arrayLength :: nat

text \<open>The elements of a view, as \<open>Array.from\<close> or an index loop reads them.\<close>

definition elements :: "Uint8Array \<Rightarrow> bytes" where
  "elements a = take (arrayLength a) (drop (byteOffset a) (buffer a))"

text \<open>\<open>new Uint8Array(xs)\<close>: a new buffer holding a copy of the bytes, and the view of all of it.\<close>

definition newUint8Array :: "bytes \<Rightarrow> Uint8Array" where
  "newUint8Array xs = \<lparr> buffer = xs, byteOffset = 0, arrayLength = length xs \<rparr>"

text \<open>A view that covers its buffer from the first byte to the last.\<close>

definition spansBuffer :: "Uint8Array \<Rightarrow> bool" where
  "spansBuffer a = (byteOffset a = 0 \<and> arrayLength a = length (buffer a))"

text \<open>
  Both functions digest \<open>fileBuffer.buffer\<close>, the whole \<open>ArrayBuffer\<close> under the array,
  and take the size from \<open>fileBuffer.length\<close>, the length of the window.
\<close>

definition signFile ::
  "('pub, 'priv) platform \<Rightarrow> world \<Rightarrow> string \<Rightarrow> Uint8Array \<Rightarrow> Keypair \<Rightarrow> Timestamp
     \<Rightarrow> Metadata option \<Rightarrow> error + FileSignature" where
  "signFile pf w filename fileBuffer keypair ts md =
     (let hashBuffer = digest pf (buffer fileBuffer);
          fileHash = bufferToHex hashBuffer
      in bindE (signHash pf hashBuffer (KeyBytes (privateKey keypair))) (\<lambda>sg.
           Inr \<lparr> version = ''1.0'',
                 fs_file = \<lparr> name = filename, hash = fileHash,
                             fsize = int (arrayLength fileBuffer),
                             mimeType = (case md of None \<Rightarrow> None | Some m \<Rightarrow> md_mimeType m) \<rparr>,
                 fs_signature = \<lparr> algorithm = ''Ed25519'',
                                  si_publicKey = bufferToHex (publicKey keypair),
                                  si_signature = sg, signedAt = now w \<rparr>,
                 fs_timestamp = ts,
                 metadata = md \<rparr>))"

definition verifyFileSignature ::
  "('pub, 'priv) platform \<Rightarrow> FileSignature \<Rightarrow> Uint8Array \<Rightarrow> error + VerifyResult" where
  "verifyFileSignature pf sg fileBuffer =
     (let errors0 = [];
          computedHash = bufferToHex (digest pf (buffer fileBuffer));
          errors1 = (if computedHash \<noteq> hash (fs_file sg)
                     then errors0 @ [''File hash mismatch - file has been modified''] else errors0);
          errors2 = (if int (arrayLength fileBuffer) \<noteq> fsize (fs_file sg)
                     then errors1 @ [''File size mismatch''] else errors1);
          pk = hexToBuffer (si_publicKey (fs_signature sg))
      in bindE (verifySignature pf (hash (fs_file sg)) (si_signature (fs_signature sg)) pk) (\<lambda>v.
           let errors3 = (if \<not> v then errors2 @ [''Invalid signature''] else errors2)
           in Inr \<lparr> valid = (length errors3 = 0), errors = errors3 \<rparr>))"

section \<open>C2PA manifest (src/index.ts)\<close>

definition optJson :: "string option \<Rightarrow> json" where
  "optJson a = (case a of None \<Rightarrow> JUndefined | Some s \<Rightarrow> JString s)"

definition createC2PAManifest ::
  "('pub, 'priv) platform \<Rightarrow> string \<Rightarrow> TimestampedSignature \<Rightarrow> ContentMetadata option \<Rightarrow> Manifest" where
  "createC2PAManifest pf c sg md =
     (let mtitle = (case md of None \<Rightarrow> None | Some m \<Rightarrow> cm_title m);
          mauthor = (case md of None \<Rightarrow> None | Some m \<Rightarrow> cm_author m);
          mdescription = (case md of None \<Rightarrow> None | Some m \<Rightarrow> cm_description m)
      in \<lparr> claim_generator_info = ''@substrate-system/keyframe'' @ pkgVersion pf,
           m_title = orElse mtitle ''Signed Content'',
           assertions =
             [(''c2pa.hash.data'',
                 JObject [(''alg'', JString ''sha256''), (''hash'', JString (contentHash sg)),
                          (''name'', JString ''content.md'')]),
              (''c2pa.actions'',
                 JObject [(''actions'', JArray [JObject
                   [(''action'', JString ''c2pa.created''),
                    (''when'', JString (verifiedTimestamp sg)),
                    (''digitalSourceType'', JString
                       ''http://cv.iptc.org/newscodes/digitalsourcetype/trainedAlgorithmicMedia'')]])]),
              (''stds.schema-org.CreativeWork'',
                 JObject [(''@context'', JString ''https://schema.org''),
                          (''@type'', JString ''CreativeWork''),
                          (''author'', JString (orElse mauthor (take 16 (cs_publicKey sg) @ ''...''))),
                          (''dateCreated'', JString (verifiedTimestamp sg)),
                          (''description'', optJson mdescription)]),
              (''org.nichoth.signature'',
                 JObject [(''publicKey'', JString (cs_publicKey sg)),
                          (''signature'', JString (signature sg)),
                          (''timestamp'', JString (timestamp sg)),
                          (''tsaToken'', JString (tsaToken sg)),
                          (''verifiedTimestamp'', JString (verifiedTimestamp sg))])],
           m_signature = (''ed25519'', signature sg) \<rparr>)"

section \<open>Revision chain (src/index.ts)\<close>

definition createSignedContent ::
  "('pub, 'priv) platform \<Rightarrow> world \<Rightarrow> string \<Rightarrow> Keypair \<Rightarrow> TSAConfig
     \<Rightarrow> ContentMetadata option \<Rightarrow> error + SignedContent" where
  "createSignedContent pf w c keypair tsaConfig md =
     bindE (signContentWithTimestamp pf w c keypair tsaConfig) (\<lambda>sg.
       let manifest = createC2PAManifest pf c sg md;
           revision = \<lparr> content = c, rev_signature = sg, previousHash = None \<rparr>
       in Inr \<lparr> sc_content = c, revisions = [revision], c2paManifest = Some manifest \<rparr>)"

text \<open>
  \<open>revisions[revisions.length - 1]\<close> of an empty array is \<open>undefined\<close>, and reading
  \<open>.signature\<close> of it throws a TypeError, before anything is signed.
\<close>

definition addRevision ::
  "('pub, 'priv) platform \<Rightarrow> world \<Rightarrow> SignedContent \<Rightarrow> string \<Rightarrow> Keypair \<Rightarrow> TSAConfig
     \<Rightarrow> error + SignedContent" where
  "addRevision pf w signedContent newContent keypair tsaConfig =
     (case nthOpt (revisions signedContent) (length (revisions signedContent) - 1) of
        None \<Rightarrow> Inl TypeError
      | Some lastRevision \<Rightarrow>
          (let prevHash = contentHash (rev_signature lastRevision)
           in bindE (signContentWithTimestamp pf w newContent keypair tsaConfig) (\<lambda>sg.
                let revision = \<lparr> content = newContent, rev_signature = sg,
                                  previousHash = Some prevHash \<rparr>
                in Inr \<lparr> sc_content = newContent,
                         revisions = revisions signedContent @ [revision],
                         c2paManifest = Some (createC2PAManifest pf newContent sg None) \<rparr>)))"

text \<open>
  The loop of \<open>verifyChain\<close> with its two variables, the index and the errors pushed so
  far. A rejected \<open>importKey\<close> inside \<open>verifySignature\<close> ends the loop as an exception.
\<close>

function verifyChain_loop ::
  "('pub, 'priv) platform \<Rightarrow> SignedContent \<Rightarrow> bytes \<Rightarrow> nat \<Rightarrow> string list \<Rightarrow> error + string list" where
  "verifyChain_loop pf signedContent pk i errs =
     (if i < length (revisions signedContent) then
        (let revision = revisions signedContent ! i;
             hashString = bufferToHex (hashContent pf (content revision));
             errs1 = (if hashString \<noteq> contentHash (rev_signature revision)
                      then errs @ [''Revision '' @ toString10 i @ '': Content hash mismatch'']
                      else errs)
         in case verifySignature pf (contentHash (rev_signature revision))
                   (signature (rev_signature revision)) pk of
              Inl e \<Rightarrow> Inl e
            | Inr v \<Rightarrow>
                (let errs2 = (if \<not> v then errs1 @ [''Revision '' @ toString10 i @ '': Invalid signature'']
                              else errs1);
                     errs3 =
                       (if i > 0 then
                          (let prevHash = contentHash (rev_signature (revisions signedContent ! (i - 1)))
                           in if previousHash revision \<noteq> Some prevHash
                              then errs2 @ [''Revision '' @ toString10 i @ '': Chain linkage broken'']
                              else errs2)
                        else
                          (if previousHash revision \<noteq> None
                           then errs2 @ [''Revision '' @ toString10 i
                                          @ '': First revision should have null previousHash'']
                           else errs2))
                 in verifyChain_loop pf signedContent pk (i + 1) errs3))
      else Inr errs)"
  by pat_completeness auto
termination
  by (relation "measure (\<lambda>(pf, signedContent, pk, i, errs). length (revisions signedContent) - i)")
     auto

declare verifyChain_loop.simps [simp del]

definition verifyChain ::
  "('pub, 'priv) platform \<Rightarrow> SignedContent \<Rightarrow> bytes \<Rightarrow> error + VerifyResult" where
  "verifyChain pf signedContent pk =
     bindE (verifyChain_loop pf signedContent pk 0 [])
       (\<lambda>errs. Inr \<lparr> valid = (length errs = 0), errors = errs \<rparr>)"

subsection \<open>\<open>addRevision\<close> over a store\<close>

text \<open>
  The same function with the objects it touches made explicit, to state what it leaves
  alone. A chain is an object holding a reference to its array of revisions; the spread
  \<^verbatim>\<open>[...signedContent.revisions, revision]\<close> allocates a new array and the returned
  object literal a new object. Nothing is written at an address that was already in use.
\<close>

type_synonym ref = nat

record chainObject =
  obj_content :: string
  obj_revisions :: ref
  obj_manifest :: "Manifest option"

record store =
  arrays :: "ref \<Rightarrow> ContentRevision list option"
  objects :: "ref \<Rightarrow> chainObject option"
  nextRef :: ref

definition readChain :: "store \<Rightarrow> ref \<Rightarrow> SignedContent option" where
  "readChain s r =
     (case objects s r of
        None \<Rightarrow> None
      | Some ob \<Rightarrow>
          (case arrays s (obj_revisions ob) of
             None \<Rightarrow> None
           | Some rs \<Rightarrow>
               Some \<lparr> sc_content = obj_content ob, revisions = rs, c2paManifest = obj_manifest ob \<rparr>))"

definition addRevisionInStore ::
  "('pub, 'priv) platform \<Rightarrow> world \<Rightarrow> store \<Rightarrow> ref \<Rightarrow> string \<Rightarrow> Keypair \<Rightarrow> TSAConfig
     \<Rightarrow> error + (ref \<times> store)" where
  "addRevisionInStore pf w s r newContent keypair tsaConfig =
     (case objects s r of
        None \<Rightarrow> Inl TypeError
      | Some ob \<Rightarrow>
          (case arrays s (obj_revisions ob) of
             None \<Rightarrow> Inl TypeError
           | Some rs \<Rightarrow>
               (case nthOpt rs (length rs - 1) of
                  None \<Rightarrow> Inl TypeError
                | Some lastRevision \<Rightarrow>
                    (let prevHash = contentHash (rev_signature lastRevision)
                     in bindE (signContentWithTimestamp pf w newContent keypair tsaConfig) (\<lambda>sg.
                          let revision = \<lparr> content = newContent, rev_signature = sg,
                                            previousHash = Some prevHash \<rparr>;
                              a = nextRef s;
                              b = nextRef s + 1
                          in Inr (b, \<lparr> arrays = (arrays s)(a \<mapsto> rs @ [revision]),
                                       objects = (objects s)(b \<mapsto>
                                         \<lparr> obj_content = newContent, obj_revisions = a,
                                           obj_manifest =
                                             Some (createC2PAManifest pf newContent sg None) \<rparr>),
                                       nextRef = nextRef s + 2 \<rparr>))))))"

text \<open>Every address in use lies below the next free one.\<close>

definition wellFormedStore :: "store \<Rightarrow> bool" where
  "wellFormedStore s =
     ((\<forall>a. arrays s a \<noteq> None \<longrightarrow> a < nextRef s) \<and> (\<forall>a. objects s a \<noteq> None \<longrightarrow> a < nextRef s))"

section \<open>JPEG EXIF embedding (src/node/index.ts)\<close>

text \<open>
  The EXIF codec (\<open>load\<close>, \<open>remove\<close>, \<open>dump\<close>, \<open>insert\<close> of the \<open>exif\<close> package) and
  \<open>JSON.stringify\<close>/\<open>JSON.parse\<close> are parameters too. \<open>remove\<close> and \<open>insert\<close>
  return a \<open>Uint8Array\<close>, which goes to \<open>signFile\<close> and \<open>verifyFileSignature\<close> as it
  is: a view. \<open>json_parse\<close> gives \<open>None\<close> where \<open>JSON.parse\<close> throws; \<open>messageOf\<close>
  is the \<open>message\<close> of a caught error.
\<close>

datatype exifval = ExifString string | ExifArray "nat list" | ExifNumber int

fun exifTruthy :: "exifval \<Rightarrow> bool" where
  "exifTruthy (ExifString s) = (s \<noteq> [])"
| "exifTruthy (ExifArray xs) = True"
| "exifTruthy (ExifNumber n) = (n \<noteq> 0)"

record ExifObj =
  ifd0th :: "(nat \<Rightarrow> exifval option) option"
  ifdExif :: "(nat \<Rightarrow> exifval option) option"
  ifdGPS :: "(nat \<Rightarrow> exifval option) option"
  ifdInterop :: "(nat \<Rightarrow> exifval option) option"
  ifd1st :: "(nat \<Rightarrow> exifval option) option"
  thumbnail :: "bytes option"

record codec =
  exif_load :: "Uint8Array \<Rightarrow> error + ExifObj"
  exif_remove :: "Uint8Array \<Rightarrow> error + Uint8Array"
  exif_dump :: "ExifObj \<Rightarrow> error + bytes"
  exif_insert :: "bytes \<Rightarrow> Uint8Array \<Rightarrow> error + Uint8Array"
  json_stringify :: "FileSignature \<Rightarrow> string"
  json_parse :: "string \<Rightarrow> FileSignature option"
  messageOf :: "error \<Rightarrow> string"

text \<open>The standard EXIF tag numbers the source imports by name.\<close>

definition UserComment :: nat where "UserComment = 37510"
definition Artist :: nat where "Artist = 315"
definition ImageDescription :: nat where "ImageDescription = 270"
definition Software :: nat where "Software = 305"

definition emptyExif :: ExifObj where
  "emptyExif =
     \<lparr> ifd0th = Some (\<lambda>t. None), ifdExif = Some (\<lambda>t. None), ifdGPS = Some (\<lambda>t. None),
       ifdInterop = Some (\<lambda>t. None), ifd1st = Some (\<lambda>t. None), thumbnail = None \<rparr>"

text \<open>\<^verbatim>\<open>{ ...metadata, mimeType: 'image/jpeg' }\<close>\<close>

definition withJpegMimeType :: "Metadata option \<Rightarrow> Metadata" where
  "withJpegMimeType md =
     (case md of
        None \<Rightarrow> \<lparr> author = None, title = None, description = None,
                    md_mimeType = Some ''image/jpeg'', extra = [] \<rparr>
      | Some m \<Rightarrow> m \<lparr> md_mimeType := Some ''image/jpeg'' \<rparr>)"

text \<open>\<open>if (a) ...\<close> on an optional string: the update \<open>f\<close> runs when it is a non-empty string.\<close>

definition whenGiven :: "string option \<Rightarrow> (string \<Rightarrow> 'a \<Rightarrow> 'a) \<Rightarrow> 'a \<Rightarrow> 'a" where
  "whenGiven a f z = (case a of None \<Rightarrow> z | Some s \<Rightarrow> if s = [] then z else f s z)"

text \<open>The assignments to the \<open>0th\<close> IFD, in the source's order.\<close>

definition setStandardFields ::
  "('pub, 'priv) platform \<Rightarrow> Metadata option \<Rightarrow> (nat \<Rightarrow> exifval option) \<Rightarrow> (nat \<Rightarrow> exifval option)" where
  "setStandardFields pf md z =
     (let a = (case md of None \<Rightarrow> None | Some m \<Rightarrow> author m);
          t = (case md of None \<Rightarrow> None | Some m \<Rightarrow> title m);
          d = (case md of None \<Rightarrow> None | Some m \<Rightarrow> description m);
          z1 = whenGiven a (\<lambda>s z. z(Artist \<mapsto> ExifString s)) z;
          z2 = whenGiven t (\<lambda>s z. z(ImageDescription \<mapsto> ExifString s)) z1;
          z3 = whenGiven d
                 (\<lambda>s z. z(ImageDescription \<mapsto>
                    ExifString (whenGiven t (\<lambda>s' x. s' @ [CHR 0x0A, CHR 0x0A]) [] @ s))) z2
      in z3(Software \<mapsto> ExifString (''@substrate-system/keyframe v'' @ pkgVersion pf)))"

definition signJpegWithExif ::
  "('pub, 'priv) platform \<Rightarrow> world \<Rightarrow> codec \<Rightarrow> Uint8Array \<Rightarrow> string \<Rightarrow> Keypair \<Rightarrow> Timestamp
     \<Rightarrow> Metadata option \<Rightarrow> error + Uint8Array" where
  "signJpegWithExif pf w cd jpegBuffer filename keypair ts md =
     (let exifObj = (case exif_load cd jpegBuffer of Inl e \<Rightarrow> emptyExif | Inr ob \<Rightarrow> ob)
      in bindE (exif_remove cd jpegBuffer) (\<lambda>cleanJpegBuffer.
         bindE (signFile pf w filename cleanJpegBuffer keypair ts (Some (withJpegMimeType md))) (\<lambda>sg.
           case ifdExif exifObj of
             None \<Rightarrow> Inl TypeError
           | Some ex \<Rightarrow>
               (case ifd0th exifObj of
                  None \<Rightarrow> Inl TypeError
                | Some z \<Rightarrow>
                    bindE (exif_dump cd
                             (exifObj \<lparr> ifdExif := Some (ex(UserComment \<mapsto> ExifString (json_stringify cd sg))),
                                        ifd0th := Some (setStandardFields pf md z) \<rparr>))
                      (\<lambda>exifBytes. exif_insert cd exifBytes cleanJpegBuffer)))))"

text \<open>
  The first match of \<^verbatim>\<open>/Signature: (\{.+\})/\<close> in a string, as its captured group:
  at the leftmost place where \<open>Signature: {\<close> stands and a \<open>}\<close> follows on the same line
  after at least one character, the text from the \<open>{\<close> to the last such \<open>}\<close>.
\<close>

definition isLineTerminator :: "char \<Rightarrow> bool" where
  "isLineTerminator c = (of_char c \<in> set [10, 13 :: nat])"

definition matchBraces :: "string \<Rightarrow> string option" where
  "matchBraces s =
     (case s of
        [] \<Rightarrow> None
      | c # rest \<Rightarrow>
          if c = CHR ''{'' then
            (let run = takeWhile (\<lambda>x. \<not> isLineTerminator x) rest;
                 ends = filter (\<lambda>j. 1 \<le> j \<and> run ! j = CHR ''}'') [0..<length run]
             in if ends = [] then None else Some (c # take (Suc (last ends)) run))
          else None)"

definition startsWith :: "string \<Rightarrow> string \<Rightarrow> bool" where
  "startsWith s p = (take (length p) s = p)"

fun matchSignature :: "string \<Rightarrow> string option" where
  "matchSignature [] = None"
| "matchSignature (c # cs) =
     (if startsWith (c # cs) ''Signature: '' then
        (case matchBraces (drop 11 (c # cs)) of
           Some g \<Rightarrow> Some g
         | None \<Rightarrow> matchSignature cs)
      else matchSignature cs)"

fun includesStr :: "string \<Rightarrow> string \<Rightarrow> bool" where
  "includesStr [] p = (p = [])"
| "includesStr (c # cs) p = (startsWith (c # cs) p \<or> includesStr cs p)"

record JpegVerifyResult =
  jv_valid :: bool
  jv_signature :: "FileSignature option"
  jv_errors :: "string list"

definition noSignatureFound :: JpegVerifyResult where
  "noSignatureFound =
     \<lparr> jv_valid = False, jv_signature = None, jv_errors = [''No signature found in EXIF metadata''] \<rparr>"

definition verifyJpegExif ::
  "('pub, 'priv) platform \<Rightarrow> codec \<Rightarrow> Uint8Array \<Rightarrow> JpegVerifyResult" where
  "verifyJpegExif pf cd jpegBuffer =
     (case
        bindE (exif_load cd jpegBuffer) (\<lambda>exifObj.
          case ifdExif exifObj of
            None \<Rightarrow> Inl TypeError
          | Some ex \<Rightarrow>
              (case ex UserComment of
                 None \<Rightarrow> Inr noSignatureFound
               | Some uc \<Rightarrow>
                   if \<not> exifTruthy uc then Inr noSignatureFound
                   else
                     (case uc of
                        ExifString userComment \<Rightarrow>
                          (let sigJson =
                                 (if includesStr userComment ''Signature: '' then
                                    (case matchSignature userComment of
                                       Some g \<Rightarrow> g
                                     | None \<Rightarrow> userComment)
                                  else userComment)
                           in case json_parse cd sigJson of
                                None \<Rightarrow>
                                  Inr \<lparr> jv_valid = False, jv_signature = None,
                                        jv_errors = [''Failed to parse signature JSON from EXIF''] \<rparr>
                              | Some sg \<Rightarrow>
                                  bindE (exif_remove cd jpegBuffer) (\<lambda>cleanJpegBuffer.
                                  bindE (verifyFileSignature pf sg cleanJpegBuffer) (\<lambda>verification.
                                    Inr \<lparr> jv_valid = valid verification, jv_signature = Some sg,
                                          jv_errors = errors verification \<rparr>)))
                      | ExifArray xs \<Rightarrow> Inr noSignatureFound
                      | ExifNumber n \<Rightarrow> Inr noSignatureFound)))
      of
        Inl e \<Rightarrow>
          \<lparr> jv_valid = False, jv_signature = None,
            jv_errors = [''Failed to verify JPEG EXIF: '' @ messageOf cd e] \<rparr>
      | Inr r \<Rightarrow> r)"

text \<open>
  Signing a JPEG and verifying what was written, as the test
  \<open>Node: JPEG EXIF signing and verification\<close> does (without the files in between).
\<close>

definition signThenVerifyJpeg ::
  "('pub, 'priv) platform \<Rightarrow> world \<Rightarrow> codec \<Rightarrow> Uint8Array \<Rightarrow> string \<Rightarrow> Keypair \<Rightarrow> Timestamp
     \<Rightarrow> Metadata option \<Rightarrow> error + JpegVerifyResult" where
  "signThenVerifyJpeg pf w cd jpegBuffer filename keypair ts md =
     bindE (signJpegWithExif pf w cd jpegBuffer filename keypair ts md)
       (\<lambda>signedJpeg. Inr (verifyJpegExif pf cd signedJpeg))"

section \<open>Specification-side definitions\<close>

subsection \<open>The checks of \<open>verifyChain\<close>, as the specification lists them\<close>

text \<open>
  For revision \<open>i\<close>: (1) the recomputed hash of its content against its stored hash,
  (2) its signature over that stored hash under the public key, (3) its \<open>previousHash\<close>
  against the stored hash of revision \<open>i - 1\<close>, or against \<open>null\<close> for the first.
\<close>

datatype chainCheck = HashCheck | SignatureCheck | LinkCheck

definition checkFails ::
  "('pub, 'priv) platform \<Rightarrow> 'pub \<Rightarrow> SignedContent \<Rightarrow> nat \<times> chainCheck \<Rightarrow> bool" where
  "checkFails pf key sc ic =
     (let i = fst ic; r = revisions sc ! i
      in case snd ic of
           HashCheck \<Rightarrow> bufferToHex (hashContent pf (content r)) \<noteq> contentHash (rev_signature r)
         | SignatureCheck \<Rightarrow>
             \<not> verify pf key (hexToBuffer (signature (rev_signature r)))
                  (hexToBuffer (contentHash (rev_signature r)))
         | LinkCheck \<Rightarrow>
             (if i = 0 then previousHash r \<noteq> None
              else previousHash r \<noteq> Some (contentHash (rev_signature (revisions sc ! (i - 1))))))"

text \<open>Every failed check of the chain, by revision and, within a revision, in the order (1), (2), (3).\<close>

definition failedChecks ::
  "('pub, 'priv) platform \<Rightarrow> 'pub \<Rightarrow> SignedContent \<Rightarrow> (nat \<times> chainCheck) list" where
  "failedChecks pf key sc =
     filter (checkFails pf key sc)
       (List.product [0..<length (revisions sc)] [HashCheck, SignatureCheck, LinkCheck])"

definition describeFailure :: "nat \<times> chainCheck \<Rightarrow> string" where
  "describeFailure ic =
     ''Revision '' @ toString10 (fst ic) @ '': '' @
       (case snd ic of
          HashCheck \<Rightarrow> ''Content hash mismatch''
        | SignatureCheck \<Rightarrow> ''Invalid signature''
        | LinkCheck \<Rightarrow>
            (if fst ic = 0 then ''First revision should have null previousHash''
             else ''Chain linkage broken''))"

text \<open>Overwriting the content of revision \<open>i\<close> and nothing else.\<close>

definition corruptContent :: "SignedContent \<Rightarrow> nat \<Rightarrow> string \<Rightarrow> SignedContent" where
  "corruptContent sc i c =
     sc \<lparr> revisions := (revisions sc)[i := (revisions sc ! i) \<lparr> content := c \<rparr>] \<rparr>"

subsection \<open>The grammar of \<open>genTime\<close>, as the specification writes it\<close>

text \<open>\<open>YYYYMMDDHHMMSS[.fraction]Z\<close>: fourteen digits, optionally a dot and at least one digit, then \<open>Z\<close>.\<close>

definition genTimeGrammar :: "string \<Rightarrow> bool" where
  "genTimeGrammar s =
     (\<exists>ds fr. s = ds @ fr @ ''Z'' \<and> length ds = 14 \<and> list_all isDigit ds
        \<and> (fr = [] \<or> (\<exists>f. fr = CHR ''.'' # f \<and> f \<noteq> [] \<and> list_all isDigit f)))"

section \<open>A small platform\<close>

text \<open>
  One concrete platform, world and codec, on which the hypotheses of the theorems
  below are checked to be satisfiable and the failing inputs are run. The digest is the
  length and the byte sum; a signature is the 32-byte key followed by the message,
  padded to 64 bytes; raw public keys are 32 bytes and PKCS8 private keys 48, as for
  Ed25519.
\<close>

definition sampleDigest :: "bytes \<Rightarrow> bytes" where
  "sampleDigest bs = [of_nat (length bs), sum_list bs]"

definition sampleSign :: "bytes \<Rightarrow> bytes \<Rightarrow> bytes" where
  "sampleSign k m = take 64 (k @ m @ replicate 64 0)"

definition sampleVerify :: "bytes \<Rightarrow> bytes \<Rightarrow> bytes \<Rightarrow> bool" where
  "sampleVerify k sg m = (sg = sampleSign k m)"

definition sampleImportRaw :: "bytes \<Rightarrow> bytes option" where
  "sampleImportRaw bs = (if length bs = 32 then Some bs else None)"

definition sampleImportPkcs8 :: "bytes \<Rightarrow> bytes option" where
  "sampleImportPkcs8 bs = (if length bs = 48 then Some (drop 16 bs) else None)"

fun sampleArg :: "jsval \<Rightarrow> string" where
  "sampleArg (Str s) = s"
| "sampleArg (Inherited k) = ''function '' @ k @ ''() { [native code] }''"

definition leaf :: asn1node where
  "leaf = Asn1Node None None"

definition sampleResponse :: asn1node where
  "sampleResponse =
     Asn1Node None (Some [leaf,
       Asn1Node None (Some [leaf,
         Asn1Node None (Some [
           Asn1Node None (Some [leaf, leaf,
             Asn1Node None (Some [leaf,
               Asn1Node None (Some [Asn1Node (Some [2]) None])])])])])])"

definition sampleTSTInfo :: asn1node where
  "sampleTSTInfo =
     Asn1Node None (Some [leaf, leaf, leaf, leaf,
       Asn1Node (Some (map (\<lambda>c. of_nat (of_char c)) ''20240101120000Z'')) None])"

definition samplePlatform :: "(bytes, bytes) platform" where
  "samplePlatform =
     \<lparr> digest = sampleDigest,
       importKey_raw = sampleImportRaw,
       importKey_pkcs8 = sampleImportPkcs8,
       sign = sampleSign,
       verify = sampleVerify,
       ASN1_Any = (\<lambda>t args. Inr (t @ concat (map sampleArg args))),
       ASN1_UInt = (\<lambda>s. Inr (''02'' @ s)),
       ASN1_parse = (\<lambda>der. if der = [1] then Inr (ParsedObject sampleResponse)
                            else if der = [2] then Inr (ParsedObject sampleTSTInfo)
                            else Inl (LibraryError ''not DER'')),
       btoa = (\<lambda>s. s),
       textDecode = map (\<lambda>b. char_of (unat b)),
       dateFallback = (\<lambda>s. InvalidDate),
       instantToISO = (\<lambda>t. ''2024-01-01T12:00:00.000Z''),
       pkgVersion = ''0.0.0'' \<rparr>"

definition sampleWorld :: world where
  "sampleWorld =
     \<lparr> now = ''2024-01-01T12:00:01.000Z'',
       randomValues = [1, 2, 3, 4, 5, 6, 7, 8],
       fetch = (\<lambda>u b. Inr \<lparr> ok = True, status = 200, arrayBuffer = [1] \<rparr>) \<rparr>"

definition sampleKeypair :: Keypair where
  "sampleKeypair = \<lparr> publicKey = replicate 32 7, privateKey = replicate 16 0 @ replicate 32 7 \<rparr>"

definition sampleConfig :: TSAConfig where
  "sampleConfig = \<lparr> url = ''https://tsa.example/tsr'', hashAlgorithm = None, policyOID = None \<rparr>"

definition sampleTimestamp :: Timestamp where
  "sampleTimestamp =
     \<lparr> authority = ''http://mock-tsa/timestamp'', token = ''AAAAAAAAAAAAAA=='',
       verifiedAt = ''2024-01-01T12:00:00.000Z'' \<rparr>"

subsection \<open>A small codec\<close>

text \<open>
  In this container the bytes below 128 are the picture and the bytes from 128 on are
  the metadata: \<open>remove\<close> keeps the picture, \<open>insert\<close> puts the metadata in front,
  \<open>dump\<close> and \<open>load\<close> carry the user comment. The codec reads the elements of the
  array it is given and returns a new array. The serialisation of a signature
  writes five of its fields in the manner of JSON, each string as it is.
\<close>

definition isPicture :: "byte \<Rightarrow> bool" where
  "isPicture b = (unat b < 128)"

definition sampleDump :: "ExifObj \<Rightarrow> error + bytes" where
  "sampleDump ob =
     (case ifdExif ob of
        None \<Rightarrow> Inr []
      | Some ex \<Rightarrow>
          (case ex UserComment of
             Some (ExifString s) \<Rightarrow> Inr (map (\<lambda>c. of_nat (of_char c + 128)) s)
           | _ \<Rightarrow> Inr []))"

definition sampleLoad :: "Uint8Array \<Rightarrow> error + ExifObj" where
  "sampleLoad img =
     Inr (emptyExif \<lparr> ifdExif :=
            Some ((\<lambda>t. None)(UserComment \<mapsto>
              ExifString (map (\<lambda>b. char_of (unat b - 128))
                            (filter (\<lambda>b. \<not> isPicture b) (elements img))))) \<rparr>)"

definition sampleStringify :: "FileSignature \<Rightarrow> string" where
  "sampleStringify sg =
     ''{\"name\":\"'' @ name (fs_file sg)
       @ ''\",\"hash\":\"'' @ hash (fs_file sg)
       @ ''\",\"size\":\"'' @ toString10 (nat (fsize (fs_file sg)))
       @ ''\",\"publicKey\":\"'' @ si_publicKey (fs_signature sg)
       @ ''\",\"signature\":\"'' @ si_signature (fs_signature sg)
       @ ''\"}''"

definition isQuote :: "char \<Rightarrow> bool" where
  "isQuote c = (c = CHR 0x22)"

text \<open>Reading a literal, and reading a field up to the next quote.\<close>

definition expect :: "string \<Rightarrow> string \<Rightarrow> string option" where
  "expect p s = (if startsWith s p then Some (drop (length p) s) else None)"

definition sampleParse :: "string \<Rightarrow> FileSignature option" where
  "sampleParse s =
     Option.bind (expect ''{\"name\":\"'' s) (\<lambda>r1.
     Option.bind (expect ''\",\"hash\":\"'' (dropWhile (\<lambda>c. \<not> isQuote c) r1)) (\<lambda>r2.
     Option.bind (expect ''\",\"size\":\"'' (dropWhile (\<lambda>c. \<not> isQuote c) r2)) (\<lambda>r3.
     Option.bind (expect ''\",\"publicKey\":\"'' (dropWhile (\<lambda>c. \<not> isQuote c) r3)) (\<lambda>r4.
     Option.bind (expect ''\",\"signature\":\"'' (dropWhile (\<lambda>c. \<not> isQuote c) r4)) (\<lambda>r5.
       if dropWhile (\<lambda>c. \<not> isQuote c) r5 = ''\"}''
          \<and> takeWhile (\<lambda>c. \<not> isQuote c) r3 \<noteq> [] \<and> list_all isDigit (takeWhile (\<lambda>c. \<not> isQuote c) r3)
       then Some \<lparr> version = ''1.0'',
                   fs_file = \<lparr> name = takeWhile (\<lambda>c. \<not> isQuote c) r1,
                               hash = takeWhile (\<lambda>c. \<not> isQuote c) r2,
                               fsize = int (decimalValue (takeWhile (\<lambda>c. \<not> isQuote c) r3)),
                               mimeType = None \<rparr>,
                   fs_signature = \<lparr> algorithm = ''Ed25519'',
                                    si_publicKey = takeWhile (\<lambda>c. \<not> isQuote c) r4,
                                    si_signature = takeWhile (\<lambda>c. \<not> isQuote c) r5,
                                    signedAt = [] \<rparr>,
                   fs_timestamp = \<lparr> authority = [], token = [], verifiedAt = [] \<rparr>,
                   metadata = None \<rparr>
       else None)))))"

fun sampleMessage :: "error \<Rightarrow> string" where
  "sampleMessage (Error m) = m"
| "sampleMessage (LibraryError m) = m"
| "sampleMessage e = ''error''"

definition sampleCodec :: codec where
  "sampleCodec =
     \<lparr> exif_load = sampleLoad,
       exif_remove = (\<lambda>img. Inr (newUint8Array (filter isPicture (elements img)))),
       exif_dump = sampleDump,
       exif_insert = (\<lambda>e c. Inr (newUint8Array (e @ elements c))),
       json_stringify = sampleStringify,
       json_parse = sampleParse,
       messageOf = sampleMessage \<rparr>"

subsection \<open>Sample inputs\<close>



text \<open>A chain of one revision, held in a store of two objects.\<close>

definition sampleChain :: SignedContent where
  "sampleChain =
     \<lparr> sc_content = ''v0'',
       revisions = [\<lparr> content = ''v0'',
                      rev_signature = \<lparr> contentHash = ''0290'', signature = ''00'',
                                        cs_publicKey = ''07'', timestamp = ''t'',
                                        tsaToken = ''k'', verifiedTimestamp = ''v'' \<rparr>,
                      previousHash = None \<rparr>],
       c2paManifest = None \<rparr>"

definition sampleStore :: store where
  "sampleStore =
     \<lparr> arrays = (\<lambda>a. None)(0 \<mapsto> revisions sampleChain),
       objects = (\<lambda>a. None)(1 \<mapsto> \<lparr> obj_content = ''v0'', obj_revisions = 0, obj_manifest = None \<rparr>),
       nextRef = 2 \<rparr>"

text \<open>
  Two arrays over one buffer of five bytes: the window of its three middle bytes, and
  the window of its first three. A third array holds a copy of the middle bytes.
\<close>

definition sampleWindow :: Uint8Array where
  "sampleWindow = \<lparr> buffer = [9, 1, 2, 3, 9], byteOffset = 1, arrayLength = 3 \<rparr>"

definition otherWindow :: Uint8Array where
  "otherWindow = \<lparr> buffer = [9, 1, 2, 3, 9], byteOffset = 0, arrayLength = 3 \<rparr>"

definition sampleCopy :: Uint8Array where
  "sampleCopy = newUint8Array [1, 2, 3]"

text \<open>
  An image in the small container, as a window of a larger buffer: the picture
  \<open>[1, 2, 3]\<close> with one byte of metadata. The run of the small codec on it: the
  signature \<open>signFile\<close> makes for a file name, the array \<open>signJpegWithExif\<close> returns,
  and the signature the small parser reads back from it.
\<close>

definition sampleJpeg :: Uint8Array where
  "sampleJpeg = \<lparr> buffer = [77, 1, 2, 200, 3, 77], byteOffset = 1, arrayLength = 4 \<rparr>"

definition sampleJpegSignature :: "string \<Rightarrow> FileSignature" where
  "sampleJpegSignature filename =
     \<lparr> version = ''1.0'',
       fs_file = \<lparr> name = filename, hash = bufferToHex (sampleDigest [1, 2, 3]), fsize = 3,
                   mimeType = Some ''image/jpeg'' \<rparr>,
       fs_signature = \<lparr> algorithm = ''Ed25519'',
                        si_publicKey = bufferToHex (replicate 32 7),
                        si_signature = bufferToHex (sampleSign (replicate 32 7) (sampleDigest [1, 2, 3])),
                        signedAt = ''2024-01-01T12:00:01.000Z'' \<rparr>,
       fs_timestamp = sampleTimestamp,
       metadata = Some (withJpegMimeType None) \<rparr>"

definition sampleEmbedded :: "string \<Rightarrow> Uint8Array" where
  "sampleEmbedded filename =
     newUint8Array
       (map (\<lambda>c. of_nat (of_char c + 128)) (sampleStringify (sampleJpegSignature filename))
          @ [1, 2, 3])"

definition sampleRead :: "string \<Rightarrow> FileSignature" where
  "sampleRead filename =
     \<lparr> version = ''1.0'',
       fs_file = \<lparr> name = filename, hash = bufferToHex (sampleDigest [1, 2, 3]),
                   fsize = 3, mimeType = None \<rparr>,
       fs_signature = \<lparr> algorithm = ''Ed25519'',
                        si_publicKey = bufferToHex (replicate 32 7),
                        si_signature = bufferToHex (sampleSign (replicate 32 7) (sampleDigest [1, 2, 3])),
                        signedAt = [] \<rparr>,
       fs_timestamp = \<lparr> authority = [], token = [], verifiedAt = [] \<rparr>,
       metadata = None \<rparr>"

section \<open>Auxiliary functions of the proofs\<close>

text \<open>What the loop of \<open>hexToBuffer\<close> computes, by recursion on the string: one byte per pair.\<close>

fun decodePairs :: "string \<Rightarrow> bytes" where
  "decodePairs (a # b # rest) = toUint8 (parseInt16 [a, b]) # decodePairs rest"
| "decodePairs _ = []"

text \<open>The three checks of a revision, in the order the loop makes them.\<close>

definition allChecks :: "chainCheck list" where
  "allChecks = [HashCheck, SignatureCheck, LinkCheck]"

text \<open>Characters below 128, which the small codec embeds without loss.\<close>

definition ascii :: "char \<Rightarrow> bool" where
  "ascii c = ((of_char c :: nat) < 128)"

section \<open>Codec: the round trip\<close>

lemma hexDigitChar_cases:
  "d < 16 \<Longrightarrow> d \<in> set [0, 1, 2, 3, 4, 5, 6, 7, 8, 9, 10, 11, 12, 13, 14, 15 :: nat]"
  by (simp, arith)

lemma hexDigitChar_props:
  assumes "d < 16"
  shows "hexDigitValue (hexDigitChar d) = Some d"
    and "\<not> isStrWhiteSpaceChar (hexDigitChar d)"
    and "hexDigitChar d \<noteq> CHR ''-''" and "hexDigitChar d \<noteq> CHR ''+''"
    and "hexDigitChar d \<noteq> CHR ''x''" and "hexDigitChar d \<noteq> CHR ''X''"
    and "isLowerHexChar (hexDigitChar d)"
  using hexDigitChar_cases [OF assms]
  by (auto simp: hexDigitChar_def hexDigitValue_def isStrWhiteSpaceChar_def isLowerHexChar_def)

lemma toString16_byte:
  assumes "n < 256"
  shows "padStart 2 (CHR ''0'') (toString16 n) = [hexDigitChar (n div 16), hexDigitChar (n mod 16)]"
proof (cases "n < 16")
  case True
  then show ?thesis
    by (simp add: toString16.simps [of n] padStart_def hexDigitChar_def)
next
  case False
  with assms have "n div 16 < 16" by simp
  with False show ?thesis
    by (simp add: toString16.simps [of n] toString16.simps [of "n div 16"] padStart_def)
qed

lemma parseInt16_pair:
  assumes "h < 16" "l < 16"
  shows "parseInt16 [hexDigitChar h, hexDigitChar l] = Num (int (16 * h + l))"
  using hexDigitChar_props [OF assms(1)] hexDigitChar_props [OF assms(2)]
  by (simp add: parseInt16_def isHexDigit_def hexValue_def Let_def)

lemma length_decodePairs: "length (decodePairs s) = length s div 2"
  by (induction s rule: decodePairs.induct) auto

lemma hexToBuffer_loop_length: "length (hexToBuffer_loop hex i bs) = length bs"
  by (induction hex i bs rule: hexToBuffer_loop.induct)
     (subst hexToBuffer_loop.simps, simp)

lemma hexToBuffer_loop_decode:
  "length bs = length hex div 2 \<Longrightarrow> i = 2 * k \<Longrightarrow>
   hexToBuffer_loop hex i bs = take k bs @ take (length bs - k) (decodePairs (drop i hex))"
proof (induction hex i bs arbitrary: k rule: hexToBuffer_loop.induct)
  case (1 hex i bs)
  show ?case
  proof (cases "i < length hex")
    case False
    then have "drop i hex = []" by simp
    moreover from False 1(2,3) have "length bs \<le> k" by simp
    ultimately show ?thesis using False
      by (simp add: hexToBuffer_loop.simps [of hex i bs])
  next
    case True
    let ?v = "toUint8 (parseInt16 (substring hex i (i + 2)))"
    let ?bs' = "bs[i div 2 := ?v]"
    have step: "hexToBuffer_loop hex i bs = hexToBuffer_loop hex (i + 2) ?bs'"
      using True by (simp add: hexToBuffer_loop.simps [of hex i bs])
    have ih: "hexToBuffer_loop hex (i + 2) ?bs' =
        take (Suc k) ?bs' @ take (length ?bs' - Suc k) (decodePairs (drop (i + 2) hex))"
      using 1(1) [OF True, of "Suc k"] 1(2,3) by simp
    show ?thesis
    proof (cases "Suc i < length hex")
      case False
      with True have len: "length hex = Suc i" by simp
      with 1(2,3) have kb: "length bs = k" by simp
      have "drop i hex = [hex ! i]"
        using len by (metis Cons_nth_drop_Suc True drop_all le_refl)
      with kb ih step 1(3) show ?thesis by (simp add: list_update_beyond)
    next
      case T2: True
      obtain a b where ab: "drop i hex = a # b # drop (i + 2) hex"
        using T2 True by (metis Cons_nth_drop_Suc Suc_eq_plus1 add_Suc_right one_add_one)
      then have sub: "substring hex i (i + 2) = [a, b]"
        by (simp add: substring_def)
      from T2 1(2,3) have klt: "k < length bs" by simp
      have "take (Suc k) ?bs' = take k bs @ [?v]"
        using klt 1(3) by (simp add: take_Suc_conv_app_nth)
      with ih step ab sub klt show ?thesis
        by (simp add: Suc_diff_Suc take_Cons')
    qed
  qed
qed

lemma hexToBuffer_decodePairs: "hexToBuffer hex = decodePairs hex"
  using hexToBuffer_loop_decode [of "replicate (length hex div 2) 0" hex 0 0]
  by (simp add: hexToBuffer_def length_decodePairs)

lemma decodePairs_bufferToHex: "decodePairs (bufferToHex b) = b"
proof (induction b)
  case Nil
  then show ?case by (simp add: bufferToHex_def)
next
  case (Cons x xs)
  have lt: "unat x < 256" using unsigned_less [of x, where ?'a = nat] by simp
  then have h: "unat x div 16 < 16" and l: "unat x mod 16 < 16" by simp_all
  have "toUint8 (parseInt16 [hexDigitChar (unat x div 16), hexDigitChar (unat x mod 16)]) = x"
    by (simp add: parseInt16_pair [OF h l])
  with Cons show ?case
    by (simp add: bufferToHex_def toString16_byte [OF lt])
qed

lemma length_bufferToHex: "length (bufferToHex b) = 2 * length b"
proof (induction b)
  case Nil
  then show ?case by (simp add: bufferToHex_def)
next
  case (Cons x xs)
  have lt: "unat x < 256" using unsigned_less [of x, where ?'a = nat] by simp
  with Cons show ?case by (simp add: bufferToHex_def toString16_byte [OF lt])
qed

lemma lowerHex_bufferToHex: "list_all isLowerHexChar (bufferToHex b)"
proof (induction b)
  case Nil
  then show ?case by (simp add: bufferToHex_def)
next
  case (Cons x xs)
  have lt: "unat x < 256" using unsigned_less [of x, where ?'a = nat] by simp
  then have h: "unat x div 16 < 16" and l: "unat x mod 16 < 16" by simp_all
  with Cons show ?case
    by (simp add: bufferToHex_def toString16_byte [OF lt] hexDigitChar_props(7))
qed

text \<open>
  Claim C10. For every byte array \<open>b\<close>, \<open>hexToBuffer (bufferToHex b)\<close> is \<open>b\<close>;
  \<open>bufferToHex b\<close> has exactly two characters per byte, hence even length, and all
  of them are lowercase hexadecimal digits.
\<close>

theorem hexToBuffer_bufferToHex:
  "hexToBuffer (bufferToHex b) = b \<and> length (bufferToHex b) = 2 * length b
     \<and> list_all isLowerHexChar (bufferToHex b)"
  by (simp add: hexToBuffer_decodePairs decodePairs_bufferToHex length_bufferToHex
      lowerHex_bufferToHex)

lemma bufferToHex_inj: "bufferToHex a = bufferToHex b \<longleftrightarrow> a = b"
  by (metis decodePairs_bufferToHex)

lemma hexToBuffer_length: "length (hexToBuffer s) = length s div 2"
  by (simp add: hexToBuffer_def hexToBuffer_loop_length)

lemma hex_round_trip: "hexToBuffer (bufferToHex b) = b"
  by (simp add: hexToBuffer_decodePairs decodePairs_bufferToHex)

section \<open>The small platform: its keys\<close>

lemma sampleVerify_length: "length s \<noteq> 64 \<Longrightarrow> \<not> sampleVerify k s m"
  by (auto simp: sampleVerify_def sampleSign_def)

lemma samplePlatform_keys:
  "importKey_pkcs8 samplePlatform (privateKey sampleKeypair) = Some (replicate 32 7)"
  "importKey_raw samplePlatform (publicKey sampleKeypair) = Some (replicate 32 7)"
  "verify samplePlatform (replicate 32 7) (sign samplePlatform (replicate 32 7) m) m"
  by (simp_all add: samplePlatform_def sampleKeypair_def sampleImportPkcs8_def sampleImportRaw_def
      sampleVerify_def)



section \<open>\<open>verifySignature\<close>\<close>

text \<open>
  Claim C6, as amended. \<open>verifySignature\<close> has no handler around \<open>importKey\<close>, so:
  when the platform imports the public key, the call returns a boolean without throwing,
  namely the Ed25519 verdict on the hex-decoded signature and digest, and that is
  \<open>false\<close> for a signature string whose decoded length \<open>length sg div 2\<close> is not 64
  on a platform whose Ed25519 rejects such signatures; when the platform refuses the
  public key, the call throws.
\<close>

theorem verifySignature_verdict:
  "(importKey_raw pf pk = Some key \<longrightarrow>
      verifySignature pf h sg pk = Inr (verify pf key (hexToBuffer sg) (hexToBuffer h)))
   \<and> (importKey_raw pf pk = Some key \<and> (\<forall>s m. length s \<noteq> 64 \<longrightarrow> \<not> verify pf key s m)
        \<and> length sg div 2 \<noteq> 64 \<longrightarrow>
      verifySignature pf h sg pk = Inr False)
   \<and> (importKey_raw pf pk = None \<longrightarrow> verifySignature pf h sg pk = Inl DataError)"
  by (simp add: verifySignature_def hexToBuffer_length)

theorem verifySignature_verdict_witness:
  "importKey_raw samplePlatform (replicate 32 7) = Some (replicate 32 7)
   \<and> \<not> (\<exists>s m. length s \<noteq> 64 \<and> verify samplePlatform (replicate 32 7) s m)
   \<and> length ''0a0b0'' div 2 \<noteq> 64
   \<and> verifySignature samplePlatform ''0102'' ''0a0b0'' (replicate 32 7) = Inr False
   \<and> importKey_raw samplePlatform [1, 2, 3] = None
   \<and> verifySignature samplePlatform ''0102'' ''0a0b0'' [1, 2, 3] = Inl DataError"
proof -
  have h1: "importKey_raw samplePlatform (replicate 32 7) = Some (replicate 32 7)"
    by (simp add: samplePlatform_def sampleImportRaw_def)
  have h2: "\<forall>s m. length s \<noteq> 64 \<longrightarrow> \<not> verify samplePlatform (replicate 32 7) s m"
    by (simp add: samplePlatform_def sampleVerify_length)
  have h3: "length ''0a0b0'' div 2 \<noteq> 64"
    by simp
  have h4: "importKey_raw samplePlatform [1, 2, 3] = None"
    by (simp add: samplePlatform_def sampleImportRaw_def)
  have "verifySignature samplePlatform ''0102'' ''0a0b0'' (replicate 32 7) = Inr False"
    using verifySignature_verdict [of samplePlatform "replicate 32 7" "replicate 32 7" "''0102''" "''0a0b0''"]
      h1 h2 h3 by blast
  moreover have "verifySignature samplePlatform ''0102'' ''0a0b0'' [1, 2, 3] = Inl DataError"
    using verifySignature_verdict [of samplePlatform "[1, 2, 3]" "replicate 32 7" "''0102''" "''0a0b0''"]
      h4 by blast
  ultimately show ?thesis using h1 h2 h3 h4 by blast
qed

text \<open>The claim as stated fails: with a public key of no bytes the call throws.\<close>

theorem verifySignature_throws_on_malformed_key:
  "verifySignature samplePlatform ''0102'' ''0a0b'' [] = Inl DataError"
  by (simp add: verifySignature_def samplePlatform_def sampleImportRaw_def)

section \<open>\<open>signFile\<close> and \<open>verifyFileSignature\<close>\<close>

lemma newUint8Array_fields:
  "buffer (newUint8Array xs) = xs" "byteOffset (newUint8Array xs) = 0"
  "arrayLength (newUint8Array xs) = length xs" "elements (newUint8Array xs) = xs"
  "spansBuffer (newUint8Array xs)"
  by (simp_all add: newUint8Array_def elements_def spansBuffer_def)

lemma spansBuffer_elements: "spansBuffer a \<Longrightarrow> elements a = buffer a"
  by (simp add: spansBuffer_def elements_def)

lemma spansBuffer_length: "spansBuffer a \<Longrightarrow> length (elements a) = arrayLength a"
  by (simp add: spansBuffer_def elements_def)

text \<open>
  What \<open>verifyFileSignature\<close> returns once the platform has imported the public key:
  one error for each check that fails, in the order hash, size, signature. The hash is
  that of the buffer under the array; the size is the length of the array.
\<close>

lemma verifyFileSignature_checks:
  assumes "importKey_raw pf (hexToBuffer (si_publicKey (fs_signature sg))) = Some key"
  shows "verifyFileSignature pf sg b =
           Inr \<lparr> valid = (bufferToHex (digest pf (buffer b)) = hash (fs_file sg)
                            \<and> int (arrayLength b) = fsize (fs_file sg)
                            \<and> verify pf key (hexToBuffer (si_signature (fs_signature sg)))
                                 (hexToBuffer (hash (fs_file sg)))),
                  errors = (if bufferToHex (digest pf (buffer b)) \<noteq> hash (fs_file sg)
                            then [''File hash mismatch - file has been modified''] else [])
                         @ (if int (arrayLength b) \<noteq> fsize (fs_file sg)
                            then [''File size mismatch''] else [])
                         @ (if \<not> verify pf key (hexToBuffer (si_signature (fs_signature sg)))
                                    (hexToBuffer (hash (fs_file sg)))
                            then [''Invalid signature''] else []) \<rparr>"
  using assms
  by (simp add: verifyFileSignature_def verifySignature_def bindE_def Let_def)




lemma signFile_Inr:
  assumes "importKey_pkcs8 pf (privateKey kp) = Some sk"
  shows "signFile pf w filename b kp ts md =
           Inr \<lparr> version = ''1.0'',
                 fs_file = \<lparr> name = filename, hash = bufferToHex (digest pf (buffer b)),
                             fsize = int (arrayLength b),
                             mimeType = (case md of None \<Rightarrow> None | Some m \<Rightarrow> md_mimeType m) \<rparr>,
                 fs_signature = \<lparr> algorithm = ''Ed25519'',
                                  si_publicKey = bufferToHex (publicKey kp),
                                  si_signature = bufferToHex (sign pf sk (digest pf (buffer b))),
                                  signedAt = now w \<rparr>,
                 fs_timestamp = ts,
                 metadata = md \<rparr>"
  using assms by (simp add: signFile_def signHash_def bindE_def Let_def)



text \<open>
  The digest is taken over the buffer, not over the window. A signature made for a
  window of a larger buffer is therefore refused for a copy of the same bytes in a
  buffer of their own, and accepted for another window of the same length over the
  same buffer, whose bytes differ.
\<close>

lemma sample_windows:
  "elements sampleWindow = [1, 2, 3]" "elements sampleCopy = [1, 2, 3]"
  "elements otherWindow = [9, 1, 2]"
  by (simp_all add: sampleWindow_def sampleCopy_def otherWindow_def elements_def
      newUint8Array_def)

lemma window_signature:
  "\<exists>sg. signFile samplePlatform sampleWorld ''photo.jpg'' sampleWindow sampleKeypair
          sampleTimestamp None = Inr sg
      \<and> elements sampleCopy = elements sampleWindow
      \<and> verifyFileSignature samplePlatform sg sampleCopy
          = Inr \<lparr> valid = False, errors = [''File hash mismatch - file has been modified''] \<rparr>
      \<and> elements otherWindow \<noteq> elements sampleWindow
      \<and> verifyFileSignature samplePlatform sg otherWindow = Inr \<lparr> valid = True, errors = [] \<rparr>"
proof -
  let ?sg = "\<lparr> version = ''1.0'',
               fs_file = \<lparr> name = ''photo.jpg'',
                           hash = bufferToHex (digest samplePlatform (buffer sampleWindow)),
                           fsize = int (arrayLength sampleWindow),
                           mimeType = None \<rparr>,
               fs_signature = \<lparr> algorithm = ''Ed25519'',
                                si_publicKey = bufferToHex (publicKey sampleKeypair),
                                si_signature = bufferToHex (sign samplePlatform (replicate 32 7)
                                                 (digest samplePlatform (buffer sampleWindow))),
                                signedAt = now sampleWorld \<rparr>,
               fs_timestamp = sampleTimestamp,
               metadata = None \<rparr>"
  have sg: "signFile samplePlatform sampleWorld ''photo.jpg'' sampleWindow sampleKeypair
              sampleTimestamp None = Inr ?sg"
    by (simp add: signFile_Inr [OF samplePlatform_keys(1)])
  have key: "importKey_raw samplePlatform (hexToBuffer (si_publicKey (fs_signature ?sg)))
               = Some (replicate 32 7)"
    by (simp add: hex_round_trip samplePlatform_keys)
  have dig: "digest samplePlatform (buffer sampleCopy) \<noteq> digest samplePlatform (buffer sampleWindow)"
    "digest samplePlatform (buffer otherWindow) = digest samplePlatform (buffer sampleWindow)"
    by (simp_all add: samplePlatform_def sampleDigest_def sampleCopy_def sampleWindow_def
        otherWindow_def newUint8Array_def)
  have len: "arrayLength sampleCopy = arrayLength sampleWindow"
    "arrayLength otherWindow = arrayLength sampleWindow"
    by (simp_all add: sampleCopy_def sampleWindow_def otherWindow_def newUint8Array_def)
  have copy: "verifyFileSignature samplePlatform ?sg sampleCopy
      = Inr \<lparr> valid = False, errors = [''File hash mismatch - file has been modified''] \<rparr>"
    using dig(1) len(1)
    by (simp add: verifyFileSignature_checks [OF key] bufferToHex_inj hex_round_trip
        samplePlatform_keys)
  have other: "verifyFileSignature samplePlatform ?sg otherWindow
      = Inr \<lparr> valid = True, errors = [] \<rparr>"
    using dig(2) len(2)
    by (simp add: verifyFileSignature_checks [OF key] hex_round_trip samplePlatform_keys)
  show ?thesis
    using sg copy other by (simp add: sample_windows)
qed

section \<open>The revision chain\<close>

lemma signContentWithTimestamp_Inr:
  assumes "importKey_pkcs8 pf (privateKey kp) = Some sk"
    and "requestTimestamp pf w (bufferToHex (hashContent pf c)) cfg = Inr (tok, Instant t)"
  shows "signContentWithTimestamp pf w c kp cfg =
           Inr \<lparr> contentHash = bufferToHex (hashContent pf c),
                 signature = bufferToHex (sign pf sk (hashContent pf c)),
                 cs_publicKey = bufferToHex (publicKey kp), timestamp = now w,
                 tsaToken = tok, verifiedTimestamp = instantToISO pf t \<rparr>"
  using assms
  by (simp add: signContentWithTimestamp_def signContent_def signHash_def bindE_def Let_def
      toISOString_def)

lemma signContentWithTimestamp_fields:
  assumes "signContentWithTimestamp pf w c kp cfg = Inr sg"
    and "importKey_pkcs8 pf (privateKey kp) = Some sk"
  shows "contentHash sg = bufferToHex (hashContent pf c)"
    and "signature sg = bufferToHex (sign pf sk (hashContent pf c))"
  using assms
  by (auto simp: signContentWithTimestamp_def signContent_def signHash_def bindE_def Let_def
      split: sum.splits prod.splits)

lemma verifyChain_loop_step:
  assumes "importKey_raw pf pk = Some key" and "i < length (revisions sc)"
  shows "verifyChain_loop pf sc pk i errs =
         verifyChain_loop pf sc pk (Suc i)
           (errs @ map describeFailure (filter (checkFails pf key sc) (map (Pair i) allChecks)))"
  using assms
  by (subst verifyChain_loop.simps)
     (simp add: verifySignature_def Let_def checkFails_def describeFailure_def allChecks_def)

lemma verifyChain_loop_errors:
  assumes "importKey_raw pf pk = Some key"
  shows "i \<le> length (revisions sc) \<Longrightarrow>
         verifyChain_loop pf sc pk i errs =
           Inr (errs @ map describeFailure
                  (filter (checkFails pf key sc)
                     (List.product [i..<length (revisions sc)] allChecks)))"
proof (induction "length (revisions sc) - i" arbitrary: i errs)
  case 0
  then have "i = length (revisions sc)" by simp
  then show ?case by (subst verifyChain_loop.simps) simp
next
  case (Suc d)
  then have lt: "i < length (revisions sc)" by simp
  have "Suc i \<le> length (revisions sc)" and "d = length (revisions sc) - Suc i"
    using Suc by simp_all
  from Suc(1) [OF this(2) this(1)] show ?case
    by (simp add: verifyChain_loop_step [OF assms lt] upt_conv_Cons [OF lt])
qed

lemma verifyChain_errors:
  assumes "importKey_raw pf pk = Some key"
  shows "verifyChain pf sc pk =
           Inr \<lparr> valid = (failedChecks pf key sc = []),
                 errors = map describeFailure (failedChecks pf key sc) \<rparr>"
  using verifyChain_loop_errors [OF assms, of 0 sc "[]"]
  by (simp add: verifyChain_def bindE_def failedChecks_def allChecks_def)

lemma decDigit:
  "d < 10 \<Longrightarrow> isDigit (hexDigitChar d) \<and> (of_char (hexDigitChar d) :: nat) - 48 = d"
  using hexDigitChar_cases [of d]
  by (auto simp: hexDigitChar_def isDigit_def)

lemma decimalValue_snoc:
  "decimalValue (xs @ [c]) = 10 * decimalValue xs + ((of_char c :: nat) - 48)"
  by (simp add: decimalValue_def)

lemma decimalValue_toString10: "decimalValue (toString10 n) = n"
proof (induction n rule: toString10.induct)
  case (1 n)
  show ?case
  proof (cases "n < 10")
    case True
    then show ?thesis
      using decDigit [of n] by (simp add: toString10.simps [of n] decimalValue_def)
  next
    case False
    with 1 have "decimalValue (toString10 (n div 10)) = n div 10" by simp
    with False show ?thesis
      using decDigit [of "n mod 10"]
      by (simp add: toString10.simps [of n] decimalValue_snoc)
  qed
qed

lemma toString10_digits: "list_all isDigit (toString10 n)"
proof (induction n rule: toString10.induct)
  case (1 n)
  show ?case
  proof (cases "n < 10")
    case True
    then show ?thesis using decDigit [of n] by (simp add: toString10.simps [of n])
  next
    case False
    with 1 show ?thesis
      using decDigit [of "n mod 10"] by (simp add: toString10.simps [of n])
  qed
qed

lemma toString10_inj: "toString10 i = toString10 j \<Longrightarrow> i = j"
  by (metis decimalValue_toString10)

lemma digits_then_colon:
  assumes "list_all isDigit xs" "list_all isDigit ys"
    and "xs @ CHR '':'' # r1 = ys @ CHR '':'' # r2"
  shows "xs = ys \<and> r1 = r2"
proof -
  have nd: "\<not> isDigit CHR '':''" by (simp add: isDigit_def)
  have "takeWhile isDigit (xs @ CHR '':'' # r1) = xs"
    using assms(1) nd by (simp add: takeWhile_append2 list_all_iff)
  moreover have "takeWhile isDigit (ys @ CHR '':'' # r2) = ys"
    using assms(2) nd by (simp add: takeWhile_append2 list_all_iff)
  ultimately have "xs = ys" using assms(3) by simp
  with assms(3) show ?thesis by simp
qed

lemma revision_prefix_inj:
  "toString10 i @ CHR '':'' # m1 = toString10 j @ CHR '':'' # m2 \<Longrightarrow> i = j \<and> m1 = m2"
  using digits_then_colon [OF toString10_digits toString10_digits] toString10_inj by blast

lemma describeFailure_inj: "describeFailure a = describeFailure b \<Longrightarrow> a = b"
proof -
  assume eq: "describeFailure a = describeFailure b"
  obtain i c where a: "a = (i, c)" by (cases a)
  obtain j d where b: "b = (j, d)" by (cases b)
  from eq a b show ?thesis
    by (cases c; cases d)
       (auto simp: describeFailure_def dest!: revision_prefix_inj dest: toString10_inj split: if_splits)
qed

lemma failedChecks_distinct: "distinct (map describeFailure (failedChecks pf key sc))"
proof -
  have "distinct (List.product [0..<length (revisions sc)] [HashCheck, SignatureCheck, LinkCheck])"
    by (rule distinct_product) simp_all
  then have "distinct (failedChecks pf key sc)"
    by (simp add: failedChecks_def)
  moreover have "inj_on describeFailure (set (failedChecks pf key sc))"
    by (rule inj_onI) (rule describeFailure_inj)
  ultimately show ?thesis by (simp add: distinct_map)
qed

text \<open>
  Claim C3. For every content string, TSA configuration and metadata, and every key pair
  that the platform imports and that matches: when the TSA exchange for the content's
  hash succeeds with a valid time, \<open>createSignedContent\<close> returns a chain with exactly
  one revision, whose \<open>previousHash\<close> is \<open>null\<close>, and \<open>verifyChain\<close> of it under
  the public key returns \<open>valid = true\<close> with no errors.
\<close>

theorem createSignedContent_single_valid:
  assumes "importKey_pkcs8 pf (privateKey kp) = Some sk"
    and "importKey_raw pf (publicKey kp) = Some pk"
    and "\<And>m. verify pf pk (sign pf sk m) m"
    and "requestTimestamp pf w (bufferToHex (hashContent pf c)) cfg = Inr (tok, Instant t)"
  shows "\<exists>sc r. createSignedContent pf w c kp cfg md = Inr sc
           \<and> revisions sc = [r] \<and> previousHash r = None
           \<and> verifyChain pf sc (publicKey kp) = Inr \<lparr> valid = True, errors = [] \<rparr>"
proof -
  let ?sg = "\<lparr> contentHash = bufferToHex (hashContent pf c),
                 signature = bufferToHex (sign pf sk (hashContent pf c)),
                 cs_publicKey = bufferToHex (publicKey kp), timestamp = now w,
                 tsaToken = tok, verifiedTimestamp = instantToISO pf t \<rparr>"
  let ?r = "\<lparr> content = c, rev_signature = ?sg, previousHash = None \<rparr>"
  let ?sc = "\<lparr> sc_content = c, revisions = [?r],
               c2paManifest = Some (createC2PAManifest pf c ?sg md) \<rparr>"
  have created: "createSignedContent pf w c kp cfg md = Inr ?sc"
    using signContentWithTimestamp_Inr [OF assms(1) assms(4)]
    by (simp add: createSignedContent_def bindE_def Let_def)
  have "failedChecks pf pk ?sc = []"
    using assms(3)
    by (simp add: failedChecks_def checkFails_def hex_round_trip)
  then have "verifyChain pf ?sc (publicKey kp) = Inr \<lparr> valid = True, errors = [] \<rparr>"
    using verifyChain_errors [OF assms(2), of ?sc] by simp
  with created show ?thesis by auto
qed

lemma last_nthOpt: "xs \<noteq> [] \<Longrightarrow> nthOpt xs (length xs - 1) = Some (last xs)"
  by (simp add: nthOpt_def last_conv_nth)

lemma addRevision_Inr:
  assumes "importKey_pkcs8 pf (privateKey kp) = Some sk"
    and "requestTimestamp pf w (bufferToHex (hashContent pf c)) cfg = Inr (tok, Instant t)"
    and "revisions chain \<noteq> []"
  shows "addRevision pf w chain c kp cfg =
           Inr \<lparr> sc_content = c,
                 revisions = revisions chain @
                   [\<lparr> content = c,
                      rev_signature =
                        \<lparr> contentHash = bufferToHex (hashContent pf c),
                          signature = bufferToHex (sign pf sk (hashContent pf c)),
                          cs_publicKey = bufferToHex (publicKey kp), timestamp = now w,
                          tsaToken = tok, verifiedTimestamp = instantToISO pf t \<rparr>,
                      previousHash = Some (contentHash (rev_signature (last (revisions chain)))) \<rparr>],
                 c2paManifest = Some (createC2PAManifest pf c
                        \<lparr> contentHash = bufferToHex (hashContent pf c),
                          signature = bufferToHex (sign pf sk (hashContent pf c)),
                          cs_publicKey = bufferToHex (publicKey kp), timestamp = now w,
                          tsaToken = tok, verifiedTimestamp = instantToISO pf t \<rparr> None) \<rparr>"
  using signContentWithTimestamp_Inr [OF assms(1) assms(2)] last_nthOpt [OF assms(3)]
  by (simp add: addRevision_def bindE_def Let_def)

lemma addRevisionInStore_Inr:
  assumes "readChain s r = Some chain"
    and "addRevision pf w chain c kp cfg = Inr chain'"
  shows "\<exists>r' s'. addRevisionInStore pf w s r c kp cfg = Inr (r', s')
           \<and> readChain s' r' = Some chain'
           \<and> (\<forall>a. a < nextRef s \<longrightarrow> arrays s' a = arrays s a \<and> objects s' a = objects s a)"
proof -
  from assms(1) obtain ob rs where ob: "objects s r = Some ob"
    and rs: "arrays s (obj_revisions ob) = Some rs"
    and chain: "chain = \<lparr> sc_content = obj_content ob, revisions = rs,
                          c2paManifest = obj_manifest ob \<rparr>"
    by (auto simp: readChain_def split: option.splits)
  from assms(2) chain obtain lastRevision sg where
    lr: "nthOpt rs (length rs - 1) = Some lastRevision"
    and sg: "signContentWithTimestamp pf w c kp cfg = Inr sg"
    and chain': "chain' = \<lparr> sc_content = c,
          revisions = rs @ [\<lparr> content = c, rev_signature = sg,
                                 previousHash = Some (contentHash (rev_signature lastRevision)) \<rparr>],
          c2paManifest = Some (createC2PAManifest pf c sg None) \<rparr>"
    by (auto simp: addRevision_def bindE_def Let_def split: option.splits sum.splits)
  let ?s' = "\<lparr> arrays = (arrays s)(nextRef s \<mapsto> rs @ [\<lparr> content = c, rev_signature = sg,
                                 previousHash = Some (contentHash (rev_signature lastRevision)) \<rparr>]),
               objects = (objects s)(nextRef s + 1 \<mapsto>
                            \<lparr> obj_content = c, obj_revisions = nextRef s,
                              obj_manifest = Some (createC2PAManifest pf c sg None) \<rparr>),
               nextRef = nextRef s + 2 \<rparr>"
  have "addRevisionInStore pf w s r c kp cfg = Inr (nextRef s + 1, ?s')"
    using ob rs lr sg by (simp add: addRevisionInStore_def bindE_def Let_def)
  moreover have "readChain ?s' (nextRef s + 1) = Some chain'"
    by (simp add: readChain_def chain')
  moreover have "\<forall>a. a < nextRef s \<longrightarrow> arrays ?s' a = arrays s a \<and> objects ?s' a = objects s a"
    by simp
  ultimately show ?thesis by blast
qed

lemma readChain_frame:
  assumes "wellFormedStore s" and "readChain s r = Some chain"
    and "\<forall>a. a < nextRef s \<longrightarrow> arrays s' a = arrays s a \<and> objects s' a = objects s a"
  shows "readChain s' r = Some chain"
proof -
  from assms(2) obtain ob rs where ob: "objects s r = Some ob"
    and rs: "arrays s (obj_revisions ob) = Some rs"
    by (auto simp: readChain_def split: option.splits)
  with assms(1) have "r < nextRef s" "obj_revisions ob < nextRef s"
    by (auto simp: wellFormedStore_def)
  with assms(3) ob rs have "objects s' r = Some ob" "arrays s' (obj_revisions ob) = Some rs"
    by auto
  with assms(2) ob rs show ?thesis by (simp add: readChain_def)
qed

text \<open>
  Claim C4. For every non-empty chain, when the private key imports and the TSA exchange
  for the new content succeeds: \<open>addRevision\<close> returns a chain whose revisions are the
  input's, unchanged and in order, followed by one new revision, whose \<open>previousHash\<close>
  is the stored \<open>contentHash\<close> of the input's last revision (whatever the chain's
  \<open>content\<close> field holds). Over a store, the result is a new object with a new array,
  every address that was in use holds what it held, and the input chain reads as before.
\<close>

theorem addRevision_appends:
  assumes "importKey_pkcs8 pf (privateKey kp) = Some sk"
    and "requestTimestamp pf w (bufferToHex (hashContent pf c)) cfg = Inr (tok, Instant t)"
    and "revisions chain \<noteq> []"
    and "wellFormedStore s" and "readChain s r = Some chain"
  shows "\<exists>chain' rev r' s'.
           addRevision pf w chain c kp cfg = Inr chain'
           \<and> revisions chain' = revisions chain @ [rev]
           \<and> previousHash rev = Some (contentHash (rev_signature (last (revisions chain))))
           \<and> content rev = c
           \<and> addRevisionInStore pf w s r c kp cfg = Inr (r', s')
           \<and> readChain s' r' = Some chain'
           \<and> readChain s' r = Some chain
           \<and> (\<forall>a. a < nextRef s \<longrightarrow> arrays s' a = arrays s a \<and> objects s' a = objects s a)"
proof -
  note ar = addRevision_Inr [OF assms(1) assms(2) assms(3)]
  from addRevisionInStore_Inr [OF assms(5) ar] obtain r' s' where
    st: "addRevisionInStore pf w s r c kp cfg = Inr (r', s')"
    and rd: "readChain s' r' = Some \<lparr> sc_content = c,
                 revisions = revisions chain @
                   [\<lparr> content = c,
                      rev_signature =
                        \<lparr> contentHash = bufferToHex (hashContent pf c),
                          signature = bufferToHex (sign pf sk (hashContent pf c)),
                          cs_publicKey = bufferToHex (publicKey kp), timestamp = now w,
                          tsaToken = tok, verifiedTimestamp = instantToISO pf t \<rparr>,
                      previousHash = Some (contentHash (rev_signature (last (revisions chain)))) \<rparr>],
                 c2paManifest = Some (createC2PAManifest pf c
                        \<lparr> contentHash = bufferToHex (hashContent pf c),
                          signature = bufferToHex (sign pf sk (hashContent pf c)),
                          cs_publicKey = bufferToHex (publicKey kp), timestamp = now w,
                          tsaToken = tok, verifiedTimestamp = instantToISO pf t \<rparr> None) \<rparr>"
    and fr: "\<forall>a. a < nextRef s \<longrightarrow> arrays s' a = arrays s a \<and> objects s' a = objects s a"
    by blast
  from readChain_frame [OF assms(4) assms(5) fr] have "readChain s' r = Some chain" .
  with ar st rd fr show ?thesis by auto
qed

lemma createSignedContent_revisions:
  assumes "createSignedContent pf w c kp cfg md = Inr sc"
  shows "\<exists>sg. signContentWithTimestamp pf w c kp cfg = Inr sg
           \<and> revisions sc = [\<lparr> content = c, rev_signature = sg, previousHash = None \<rparr>]"
  using assms
  by (auto simp: createSignedContent_def bindE_def Let_def split: sum.splits)

lemma addRevision_revisions:
  assumes "addRevision pf w chain c kp cfg = Inr sc"
  shows "\<exists>sg. signContentWithTimestamp pf w c kp cfg = Inr sg
           \<and> revisions sc = revisions chain @
                 [\<lparr> content = c, rev_signature = sg,
                    previousHash = Some (contentHash (rev_signature (last (revisions chain)))) \<rparr>]"
proof -
  from assms have ne: "revisions chain \<noteq> []"
    by (auto simp: addRevision_def nthOpt_def split: option.splits if_splits)
  from assms show ?thesis
    using last_nthOpt [OF ne]
    by (auto simp: addRevision_def bindE_def Let_def split: sum.splits)
qed

lemma upt_0_4: "[0..<4] = [0, 1, 2, 3 :: nat]"
  by (simp add: upt_rec)

lemma four_revisions_checks:
  assumes key: "importKey_raw pf pk = Some vk"
    and ok: "\<And>m. verify pf vk (sign pf sk m) m"
    and s0: "contentHash g0 = bufferToHex (hashContent pf c0)"
            "signature g0 = bufferToHex (sign pf sk (hashContent pf c0))"
    and s1: "contentHash g1 = bufferToHex (hashContent pf c1)"
            "signature g1 = bufferToHex (sign pf sk (hashContent pf c1))"
    and s2: "contentHash g2 = bufferToHex (hashContent pf c2)"
            "signature g2 = bufferToHex (sign pf sk (hashContent pf c2))"
    and s3: "contentHash g3 = bufferToHex (hashContent pf c3)"
            "signature g3 = bufferToHex (sign pf sk (hashContent pf c3))"
    and rev: "revisions sc =
       [\<lparr> content = c0, rev_signature = g0, previousHash = None \<rparr>,
        \<lparr> content = x, rev_signature = g1, previousHash = Some (contentHash g0) \<rparr>,
        \<lparr> content = c2, rev_signature = g2, previousHash = Some (contentHash g1) \<rparr>,
        \<lparr> content = c3, rev_signature = g3, previousHash = Some (contentHash g2) \<rparr>]"
  shows "failedChecks pf vk sc =
           (if hashContent pf x = hashContent pf c1 then [] else [(1, HashCheck)])"
  using ok s0 s1 s2 s3
  by (simp add: failedChecks_def rev upt_0_4 checkFails_def hex_round_trip
      bufferToHex_inj)

lemma describe_1_hash: "describeFailure (1, HashCheck) = ''Revision 1: Content hash mismatch''"
  by (simp add: describeFailure_def toString10.simps [of "Suc 0"] hexDigitChar_def)

lemma four_revision_scenario:
  assumes sk: "importKey_pkcs8 pf (privateKey kp) = Some sk"
    and vk: "importKey_raw pf (publicKey kp) = Some vk"
    and ok: "\<forall>m. verify pf vk (sign pf sk m) m"
    and b0: "createSignedContent pf w0 c0 kp cfg0 md = Inr s0"
    and b1: "addRevision pf w1 s0 c1 kp cfg1 = Inr s1"
    and b2: "addRevision pf w2 s1 c2 kp cfg2 = Inr s2"
    and b3: "addRevision pf w3 s2 c3 kp cfg3 = Inr s3"
    and diff: "hashContent pf c' \<noteq> hashContent pf c1"
  shows "verifyChain pf s3 (publicKey kp) = Inr \<lparr> valid = True, errors = [] \<rparr>
       \<and> verifyChain pf (corruptContent s3 1 c') (publicKey kp)
           = Inr \<lparr> valid = False, errors = [''Revision 1: Content hash mismatch''] \<rparr>"
proof -
  from createSignedContent_revisions [OF b0] obtain g0 where
    g0: "signContentWithTimestamp pf w0 c0 kp cfg0 = Inr g0"
    and r0: "revisions s0 = [\<lparr> content = c0, rev_signature = g0, previousHash = None \<rparr>]"
    by blast
  from addRevision_revisions [OF b1] r0 obtain g1 where
    g1: "signContentWithTimestamp pf w1 c1 kp cfg1 = Inr g1"
    and r1: "revisions s1 = [\<lparr> content = c0, rev_signature = g0, previousHash = None \<rparr>,
        \<lparr> content = c1, rev_signature = g1, previousHash = Some (contentHash g0) \<rparr>]"
    by auto
  from addRevision_revisions [OF b2] r1 obtain g2 where
    g2: "signContentWithTimestamp pf w2 c2 kp cfg2 = Inr g2"
    and r2: "revisions s2 = [\<lparr> content = c0, rev_signature = g0, previousHash = None \<rparr>,
        \<lparr> content = c1, rev_signature = g1, previousHash = Some (contentHash g0) \<rparr>,
        \<lparr> content = c2, rev_signature = g2, previousHash = Some (contentHash g1) \<rparr>]"
    by auto
  from addRevision_revisions [OF b3] r2 obtain g3 where
    g3: "signContentWithTimestamp pf w3 c3 kp cfg3 = Inr g3"
    and r3: "revisions s3 = [\<lparr> content = c0, rev_signature = g0, previousHash = None \<rparr>,
        \<lparr> content = c1, rev_signature = g1, previousHash = Some (contentHash g0) \<rparr>,
        \<lparr> content = c2, rev_signature = g2, previousHash = Some (contentHash g1) \<rparr>,
        \<lparr> content = c3, rev_signature = g3, previousHash = Some (contentHash g2) \<rparr>]"
    by auto
  note f0 = signContentWithTimestamp_fields [OF g0 sk]
  note f1 = signContentWithTimestamp_fields [OF g1 sk]
  note f2 = signContentWithTimestamp_fields [OF g2 sk]
  note f3 = signContentWithTimestamp_fields [OF g3 sk]
  from ok have ok': "\<And>m. verify pf vk (sign pf sk m) m" by simp
  have "failedChecks pf vk s3 = []"
    using four_revisions_checks [OF vk ok' f0 f1 f2 f3 r3] by simp
  then have good: "verifyChain pf s3 (publicKey kp) = Inr \<lparr> valid = True, errors = [] \<rparr>"
    using verifyChain_errors [OF vk, of s3] by simp
  have rc: "revisions (corruptContent s3 1 c') =
       [\<lparr> content = c0, rev_signature = g0, previousHash = None \<rparr>,
        \<lparr> content = c', rev_signature = g1, previousHash = Some (contentHash g0) \<rparr>,
        \<lparr> content = c2, rev_signature = g2, previousHash = Some (contentHash g1) \<rparr>,
        \<lparr> content = c3, rev_signature = g3, previousHash = Some (contentHash g2) \<rparr>]"
    by (simp add: corruptContent_def r3)
  have "failedChecks pf vk (corruptContent s3 1 c') = [(1, HashCheck)]"
    using four_revisions_checks [OF vk ok' f0 f1 f2 f3 rc] diff by simp
  then have "verifyChain pf (corruptContent s3 1 c') (publicKey kp)
           = Inr \<lparr> valid = False, errors = [''Revision 1: Content hash mismatch''] \<rparr>"
    using verifyChain_errors [OF vk, of "corruptContent s3 1 c'"] describe_1_hash by simp
  with good show ?thesis by simp
qed

text \<open>
  Claim C2. Under a public key that the platform imports, \<open>verifyChain\<close> returns, for
  every chain, one error string per failed check, over all revisions and in order; the
  strings carry the revision's index and are pairwise distinct; \<open>valid\<close> says that no
  check failed. In particular, for a chain built by \<open>createSignedContent\<close> and three
  calls of \<open>addRevision\<close> with a matching key pair, the chain verifies, and after
  overwriting the content of revision 1 with a content of another hash the only error is
  the hash mismatch of revision 1.
\<close>

theorem verifyChain_reports_every_failure:
  "(importKey_raw pf pk = Some key \<longrightarrow>
      verifyChain pf sc pk =
        Inr \<lparr> valid = (failedChecks pf key sc = []),
              errors = map describeFailure (failedChecks pf key sc) \<rparr>
      \<and> distinct (map describeFailure (failedChecks pf key sc)))
   \<and> (importKey_pkcs8 pf (privateKey kp) = Some sk
        \<and> importKey_raw pf (publicKey kp) = Some vk
        \<and> (\<forall>m. verify pf vk (sign pf sk m) m)
        \<and> createSignedContent pf w0 c0 kp cfg0 md = Inr s0
        \<and> addRevision pf w1 s0 c1 kp cfg1 = Inr s1
        \<and> addRevision pf w2 s1 c2 kp cfg2 = Inr s2
        \<and> addRevision pf w3 s2 c3 kp cfg3 = Inr s3
        \<and> hashContent pf c' \<noteq> hashContent pf c1 \<longrightarrow>
      verifyChain pf s3 (publicKey kp) = Inr \<lparr> valid = True, errors = [] \<rparr>
      \<and> verifyChain pf (corruptContent s3 1 c') (publicKey kp)
          = Inr \<lparr> valid = False, errors = [''Revision 1: Content hash mismatch''] \<rparr>)"
  using verifyChain_errors [of pf pk key sc] failedChecks_distinct [of pf key sc]
    four_revision_scenario [of pf kp sk vk w0 c0 cfg0 md s0 w1 c1 cfg1 s1 w2 c2 cfg2 s2 w3 c3 cfg3 s3 c']
  by blast

section \<open>The small platform: its TSA exchange\<close>

lemma sample_matchGenTime:
  "matchGenTime ''20240101120000Z'' =
     Some \<lparr> year = ''2024'', month = ''01'', day = ''01'', hour = ''12'', minute = ''00'',
            second = ''00'', fraction = None \<rparr>"
  by (simp add: matchGenTime_def isDigit_def Let_def)

lemma sample_isoInstant:
  "isoInstant ''2024-01-01T12:00:00Z'' = Some 1704110400000"
  by (simp add: isoInstant_def isDigit_def Let_def decimalValue_def monthLengths_def
      makeInstant_def dayFromYear_def isLeapYear_def)

lemma sample_parseGenTime:
  "parseGenTime pf ''20240101120000Z'' = Inr (Instant 1704110400000)"
  by (simp add: parseGenTime_def sample_matchGenTime isoString_def newDate_def sample_isoInstant)

lemma decode_encode:
  "map (\<lambda>b. char_of (unat b)) (map (\<lambda>c. (of_nat (of_char c :: nat) :: byte)) s) = s"
  by (induction s) (simp_all add: unat_of_nat)

lemma sample_textDecode:
  "textDecode samplePlatform (map (\<lambda>c. of_nat (of_char c)) ''20240101120000Z'') = ''20240101120000Z''"
proof -
  have "textDecode samplePlatform = map (\<lambda>b. char_of (unat b))"
    by (simp add: samplePlatform_def)
  then show ?thesis by (simp only: decode_encode)
qed

lemma sample_parseTimestampToken:
  "parseTimestampToken samplePlatform [1] = Inr (Instant 1704110400000)"
proof -
  have p1: "ASN1_parse samplePlatform [1] = Inr (ParsedObject sampleResponse)"
    and p2: "ASN1_parse samplePlatform [2] = Inr (ParsedObject sampleTSTInfo)"
    by (simp_all add: samplePlatform_def)
  show ?thesis
    unfolding parseTimestampToken_def p1 bindE_def
    by (simp add: sampleResponse_def childAt_def hasChildren_def valueOf_def nthOpt_def leaf_def
        p2 bindE_def)
       (simp add: sampleTSTInfo_def childAt_def hasChildren_def valueOf_def nthOpt_def leaf_def
        sample_textDecode sample_parseGenTime del: list.map)
qed

lemma sample_createTimeStampRequest:
  "\<exists>req. createTimeStampRequest samplePlatform (randomValues sampleWorld) h cfg = Inr req"
  by (simp add: createTimeStampRequest_def bindE_def samplePlatform_def Let_def)

lemma sample_requestTimestamp:
  "requestTimestamp samplePlatform sampleWorld h cfg
     = Inr (bufferToBase64 samplePlatform [1], Instant 1704110400000)"
proof -
  obtain req where
    "createTimeStampRequest samplePlatform (randomValues sampleWorld) h cfg = Inr req"
    using sample_createTimeStampRequest by blast
  moreover have "fetch sampleWorld (url cfg) req
      = Inr \<lparr> ok = True, status = 200, arrayBuffer = [1] \<rparr>"
    by (simp add: sampleWorld_def)
  ultimately show ?thesis
    by (simp add: requestTimestamp_def bindE_def sample_parseTimestampToken)
qed

theorem createSignedContent_single_valid_witness:
  "importKey_pkcs8 samplePlatform (privateKey sampleKeypair) = Some (replicate 32 7)
   \<and> importKey_raw samplePlatform (publicKey sampleKeypair) = Some (replicate 32 7)
   \<and> (\<forall>m. verify samplePlatform (replicate 32 7) (sign samplePlatform (replicate 32 7) m) m)
   \<and> requestTimestamp samplePlatform sampleWorld
         (bufferToHex (hashContent samplePlatform ''hello'')) sampleConfig
       = Inr (bufferToBase64 samplePlatform [1], Instant 1704110400000)
   \<and> (\<exists>sc r. createSignedContent samplePlatform sampleWorld ''hello'' sampleKeypair sampleConfig None
                = Inr sc
          \<and> revisions sc = [r] \<and> previousHash r = None
          \<and> verifyChain samplePlatform sc (publicKey sampleKeypair)
              = Inr \<lparr> valid = True, errors = [] \<rparr>)"
  using createSignedContent_single_valid [OF samplePlatform_keys(1) samplePlatform_keys(2)
      samplePlatform_keys(3)
      sample_requestTimestamp [of "bufferToHex (hashContent samplePlatform ''hello'')" sampleConfig],
      where md = None]
    samplePlatform_keys sample_requestTimestamp
  by blast

lemma sampleStore_wf: "wellFormedStore sampleStore"
  by (simp add: wellFormedStore_def sampleStore_def)

lemma sampleStore_read: "readChain sampleStore 1 = Some sampleChain"
  by (simp add: readChain_def sampleStore_def sampleChain_def)

lemma sampleChain_nonempty: "revisions sampleChain \<noteq> []"
  by (simp add: sampleChain_def)

theorem addRevision_appends_witness:
  "importKey_pkcs8 samplePlatform (privateKey sampleKeypair) = Some (replicate 32 7)
   \<and> requestTimestamp samplePlatform sampleWorld
         (bufferToHex (hashContent samplePlatform ''v1'')) sampleConfig
       = Inr (bufferToBase64 samplePlatform [1], Instant 1704110400000)
   \<and> revisions sampleChain \<noteq> []
   \<and> wellFormedStore sampleStore \<and> readChain sampleStore 1 = Some sampleChain
   \<and> (\<exists>chain' rev r' s'.
           addRevision samplePlatform sampleWorld sampleChain ''v1'' sampleKeypair sampleConfig
             = Inr chain'
           \<and> revisions chain' = revisions sampleChain @ [rev]
           \<and> previousHash rev = Some (contentHash (rev_signature (last (revisions sampleChain))))
           \<and> content rev = ''v1''
           \<and> addRevisionInStore samplePlatform sampleWorld sampleStore 1 ''v1'' sampleKeypair
                sampleConfig = Inr (r', s')
           \<and> readChain s' r' = Some chain'
           \<and> readChain s' 1 = Some sampleChain
           \<and> (\<forall>a. a < nextRef sampleStore \<longrightarrow>
                  arrays s' a = arrays sampleStore a \<and> objects s' a = objects sampleStore a))"
  using addRevision_appends [OF samplePlatform_keys(1)
      sample_requestTimestamp [of "bufferToHex (hashContent samplePlatform ''v1'')" sampleConfig]
      sampleChain_nonempty sampleStore_wf sampleStore_read]
    samplePlatform_keys(1) sample_requestTimestamp sampleChain_nonempty sampleStore_wf
    sampleStore_read
  by blast

lemma sample_createSignedContent:
  "\<exists>sc. createSignedContent samplePlatform sampleWorld c sampleKeypair sampleConfig None = Inr sc"
  using signContentWithTimestamp_Inr [OF samplePlatform_keys(1) sample_requestTimestamp]
  by (simp add: createSignedContent_def bindE_def Let_def)

lemma sample_addRevision:
  assumes "revisions chain \<noteq> []"
  shows "\<exists>sc. addRevision samplePlatform sampleWorld chain c sampleKeypair sampleConfig = Inr sc"
  using addRevision_Inr [OF samplePlatform_keys(1) sample_requestTimestamp assms] by blast

lemma addRevision_nonempty:
  "addRevision pf w chain c kp cfg = Inr sc \<Longrightarrow> revisions sc \<noteq> []"
  using addRevision_revisions by fastforce

lemma sample_hash_differs:
  "hashContent samplePlatform ''tampered'' \<noteq> hashContent samplePlatform ''v1''"
  by (simp add: hashContent_def samplePlatform_def sampleDigest_def utf8Encode_def)

theorem verifyChain_reports_every_failure_witness:
  "\<exists>s0 s1 s2 s3.
      importKey_pkcs8 samplePlatform (privateKey sampleKeypair) = Some (replicate 32 7)
    \<and> importKey_raw samplePlatform (publicKey sampleKeypair) = Some (replicate 32 7)
    \<and> (\<forall>m. verify samplePlatform (replicate 32 7) (sign samplePlatform (replicate 32 7) m) m)
    \<and> createSignedContent samplePlatform sampleWorld ''v0'' sampleKeypair sampleConfig None = Inr s0
    \<and> addRevision samplePlatform sampleWorld s0 ''v1'' sampleKeypair sampleConfig = Inr s1
    \<and> addRevision samplePlatform sampleWorld s1 ''v2'' sampleKeypair sampleConfig = Inr s2
    \<and> addRevision samplePlatform sampleWorld s2 ''v3'' sampleKeypair sampleConfig = Inr s3
    \<and> hashContent samplePlatform ''tampered'' \<noteq> hashContent samplePlatform ''v1''
    \<and> verifyChain samplePlatform s3 (publicKey sampleKeypair) = Inr \<lparr> valid = True, errors = [] \<rparr>
    \<and> verifyChain samplePlatform (corruptContent s3 1 ''tampered'') (publicKey sampleKeypair)
        = Inr \<lparr> valid = False, errors = [''Revision 1: Content hash mismatch''] \<rparr>
    \<and> verifyChain samplePlatform (corruptContent s3 1 ''tampered'') (publicKey sampleKeypair)
        = Inr \<lparr> valid = (failedChecks samplePlatform (replicate 32 7)
                            (corruptContent s3 1 ''tampered'') = []),
                errors = map describeFailure (failedChecks samplePlatform (replicate 32 7)
                            (corruptContent s3 1 ''tampered'')) \<rparr>
    \<and> distinct (map describeFailure (failedChecks samplePlatform (replicate 32 7)
                            (corruptContent s3 1 ''tampered'')))"
proof -
  obtain s0 where s0:
    "createSignedContent samplePlatform sampleWorld ''v0'' sampleKeypair sampleConfig None = Inr s0"
    using sample_createSignedContent by blast
  then have "revisions s0 \<noteq> []"
    using createSignedContent_revisions by fastforce
  then obtain s1 where s1:
    "addRevision samplePlatform sampleWorld s0 ''v1'' sampleKeypair sampleConfig = Inr s1"
    using sample_addRevision by blast
  then obtain s2 where s2:
    "addRevision samplePlatform sampleWorld s1 ''v2'' sampleKeypair sampleConfig = Inr s2"
    using sample_addRevision addRevision_nonempty by blast
  then obtain s3 where s3:
    "addRevision samplePlatform sampleWorld s2 ''v3'' sampleKeypair sampleConfig = Inr s3"
    using sample_addRevision addRevision_nonempty by blast
  have ok: "\<forall>m. verify samplePlatform (replicate 32 7) (sign samplePlatform (replicate 32 7) m) m"
    using samplePlatform_keys(3) by blast
  show ?thesis
    using verifyChain_reports_every_failure [of samplePlatform "publicKey sampleKeypair"
        "replicate 32 7" "corruptContent s3 1 ''tampered''" sampleKeypair "replicate 32 7"
        "replicate 32 7" sampleWorld "''v0''" sampleConfig None s0 sampleWorld "''v1''"
        sampleConfig s1 sampleWorld "''v2''" sampleConfig s2 sampleWorld "''v3''" sampleConfig s3
        "''tampered''"]
      samplePlatform_keys(1) samplePlatform_keys(2) ok s0 s1 s2 s3 sample_hash_differs
    by blast
qed

section \<open>The \<open>genTime\<close> parser\<close>

lemma notDigit_Z: "\<not> isDigit CHR ''Z''" and notDigit_dot: "\<not> isDigit CHR ''.''"
  by (simp_all add: isDigit_def)

lemma matchGenTime_grammar: "(matchGenTime s \<noteq> None) = genTimeGrammar s"
proof
  assume "matchGenTime s \<noteq> None"
  then have len: "length (take 14 s) = 14" and dig: "list_all isDigit (take 14 s)"
    and rest: "(\<exists>r'. drop 14 s = CHR ''.'' # r' \<and> takeWhile isDigit r' \<noteq> []
                    \<and> dropWhile isDigit r' = ''Z'') \<or> drop 14 s = ''Z''"
    by (auto simp: matchGenTime_def Let_def split: if_splits list.splits)
  from rest show "genTimeGrammar s"
  proof
    assume "drop 14 s = ''Z''"
    then have "s = take 14 s @ [] @ ''Z''"
      by (metis append_Nil append_take_drop_id)
    with len dig show ?thesis unfolding genTimeGrammar_def by blast
  next
    assume "\<exists>r'. drop 14 s = CHR ''.'' # r' \<and> takeWhile isDigit r' \<noteq> []
                    \<and> dropWhile isDigit r' = ''Z''"
    then obtain r' where r: "drop 14 s = CHR ''.'' # r'" and ne: "takeWhile isDigit r' \<noteq> []"
      and z: "dropWhile isDigit r' = ''Z''" by blast
    have "r' = takeWhile isDigit r' @ ''Z''"
      using z takeWhile_dropWhile_id [of isDigit r'] by simp
    with r have "s = take 14 s @ (CHR ''.'' # takeWhile isDigit r') @ ''Z''"
      by (metis append_Cons append_take_drop_id)
    moreover have "list_all isDigit (takeWhile isDigit r')"
      by (simp add: list_all_iff) (meson set_takeWhileD)
    ultimately show ?thesis using len dig ne unfolding genTimeGrammar_def by blast
  qed
next
  assume "genTimeGrammar s"
  then obtain ds fr where s: "s = ds @ fr @ ''Z''" and len: "length ds = 14"
    and dig: "list_all isDigit ds"
    and fr: "fr = [] \<or> (\<exists>f. fr = CHR ''.'' # f \<and> f \<noteq> [] \<and> list_all isDigit f)"
    unfolding genTimeGrammar_def by blast
  have t: "take 14 s = ds" and d: "drop 14 s = fr @ ''Z''"
    using s len by simp_all
  from fr show "matchGenTime s \<noteq> None"
  proof
    assume "fr = []"
    with t d len dig show ?thesis
      by (simp add: matchGenTime_def Let_def)
  next
    assume "\<exists>f. fr = CHR ''.'' # f \<and> f \<noteq> [] \<and> list_all isDigit f"
    then obtain f where f: "fr = CHR ''.'' # f" "f \<noteq> []" "list_all isDigit f" by blast
    have "takeWhile isDigit (f @ ''Z'') = f" "dropWhile isDigit (f @ ''Z'') = ''Z''"
      using f(3) notDigit_Z by (simp_all add: list_all_iff takeWhile_append2 dropWhile_append2)
    with t d len dig f show ?thesis
      by (simp add: matchGenTime_def Let_def)
  qed
qed

lemma genTimeGrammar_last: "genTimeGrammar s \<Longrightarrow> s \<noteq> [] \<and> last s = CHR ''Z''"
  unfolding genTimeGrammar_def by auto

lemma parseGenTime_accepts: "(\<exists>d. parseGenTime pf s = Inr d) = genTimeGrammar s"
  using matchGenTime_grammar [of s]
  by (auto simp: parseGenTime_def split: option.splits)

lemma fraction_matchGenTime:
  "matchGenTime ''20240101120000.500Z'' =
     Some \<lparr> year = ''2024'', month = ''01'', day = ''01'', hour = ''12'', minute = ''00'',
            second = ''00'', fraction = Some ''500'' \<rparr>"
  by (simp add: matchGenTime_def isDigit_def Let_def)

lemma fraction_isoInstant:
  "isoInstant ''2024-01-01T12:00:00.500Z'' = Some 1704110400500"
  by (simp add: isoInstant_def isDigit_def Let_def decimalValue_def monthLengths_def
      makeInstant_def dayFromYear_def isLeapYear_def)

lemma fraction_parseGenTime:
  "parseGenTime pf ''20240101120000.500Z'' = Inr (Instant 1704110400500)"
  by (simp add: parseGenTime_def fraction_matchGenTime isoString_def newDate_def fraction_isoInstant)

text \<open>
  Claim C7. The parser of \<open>genTime\<close> returns a date exactly for the strings of the
  grammar \<open>YYYYMMDDHHMMSS[.fraction]Z\<close>; \<open>20240101120000Z\<close> gives the instant
  2024-01-01T12:00:00.000Z (1704110400000 ms after the epoch) and
  \<open>20240101120000.500Z\<close> the instant 500 ms later; every string that does not end in
  \<open>Z\<close>, so every string with another time zone designator, is rejected with the
  parse failure.
\<close>

theorem parseGenTime_grammar:
  "((\<exists>d. parseGenTime pf s = Inr d) = genTimeGrammar s)
   \<and> parseGenTime pf ''20240101120000Z'' = Inr (Instant 1704110400000)
   \<and> parseGenTime pf ''20240101120000.500Z'' = Inr (Instant 1704110400500)
   \<and> (s = [] \<or> last s \<noteq> CHR ''Z'' \<longrightarrow>
        parseGenTime pf s = Inl (Error (''Invalid GeneralizedTime format: '' @ s)))"
proof -
  have "parseGenTime pf s = Inl (Error (''Invalid GeneralizedTime format: '' @ s))"
    if "s = [] \<or> last s \<noteq> CHR ''Z''"
  proof -
    from that have "\<not> genTimeGrammar s" using genTimeGrammar_last by blast
    then have "matchGenTime s = None" using matchGenTime_grammar by blast
    then show ?thesis by (simp add: parseGenTime_def)
  qed
  then show ?thesis
    using parseGenTime_accepts sample_parseGenTime fraction_parseGenTime by blast
qed

theorem parseGenTime_grammar_witness:
  "last ''20240101120000+0100'' \<noteq> CHR ''Z''
   \<and> parseGenTime samplePlatform ''20240101120000+0100''
       = Inl (Error ''Invalid GeneralizedTime format: 20240101120000+0100'')
   \<and> \<not> genTimeGrammar ''20240101120000+0100''"
  using parseGenTime_grammar [of samplePlatform "''20240101120000+0100''"]
  by auto

section \<open>The OID of the hash algorithm\<close>

text \<open>
  A name that is neither a key of the table nor a member of \<open>Object.prototype\<close> falls
  back to SHA-256, and the request is the one built for \<open>sha256\<close>.
\<close>

lemma selectOid_fallback:
  assumes "a \<notin> set objectPrototypeKeys" and "a \<notin> set (map fst oids)"
  shows "selectOid (cfg \<lparr> hashAlgorithm := Some a \<rparr>) = Str ''608648016503040201''"
    and "createTimeStampRequest pf n h (cfg \<lparr> hashAlgorithm := Some a \<rparr>)
         = createTimeStampRequest pf n h (cfg \<lparr> hashAlgorithm := Some ''sha256'' \<rparr>)"
proof -
  from assms(2) have "map_of oids a = None"
    by (simp add: map_of_eq_None_iff)
  with assms(1) have "getProperty oids a = None"
    by (simp add: getProperty_def)
  moreover have "getProperty oids ''sha256'' = Some (Str ''608648016503040201'')"
    by (simp add: getProperty_def oids_def)
  ultimately have 1: "selectOid (cfg \<lparr> hashAlgorithm := Some a \<rparr>) = Str ''608648016503040201''"
    and 2: "selectOid (cfg \<lparr> hashAlgorithm := Some ''sha256'' \<rparr>) = Str ''608648016503040201''"
    by (simp_all add: selectOid_def orElse_def)
  show "selectOid (cfg \<lparr> hashAlgorithm := Some a \<rparr>) = Str ''608648016503040201''" by (rule 1)
  show "createTimeStampRequest pf n h (cfg \<lparr> hashAlgorithm := Some a \<rparr>)
         = createTimeStampRequest pf n h (cfg \<lparr> hashAlgorithm := Some ''sha256'' \<rparr>)"
    by (simp add: createTimeStampRequest_def 1 2)
qed

text \<open>
  Claim C8 fails on the code. The claim: every name other than \<open>sha256\<close>, \<open>sha384\<close>
  and \<open>sha512\<close> is mapped to the OID of SHA-256. For the name \<open>constructor\<close> the
  lookup \<open>oids[hashAlg]\<close> finds the member inherited from \<open>Object.prototype\<close>, which
  is truthy, so the fallback \<open>|| oids.sha256\<close> is not taken; for \<open>md5\<close> it is.
\<close>

theorem selectOid_inherited_member:
  "selectOid (sampleConfig \<lparr> hashAlgorithm := Some ''constructor'' \<rparr>) = Inherited ''constructor''
   \<and> selectOid (sampleConfig \<lparr> hashAlgorithm := Some ''md5'' \<rparr>) = Str ''608648016503040201''"
  by (simp add: selectOid_def orElse_def getProperty_def oids_def objectPrototypeKeys_def)

section \<open>JPEG EXIF: signing and verifying the embedded image\<close>

text \<open>
  Whenever \<open>signJpegWithExif\<close> returns, the signature it embedded is \<open>signFile\<close> of the
  stripped input; whenever \<open>verifyJpegExif\<close> reports a signature, its verdict is
  \<open>verifyFileSignature\<close> of that signature against the stripped presented image.
\<close>

lemma signJpegWithExif_signs_stripped:
  assumes "signJpegWithExif pf w cd jpeg filename kp ts md = Inr out"
  shows "\<exists>clean sg. exif_remove cd jpeg = Inr clean
           \<and> signFile pf w filename clean kp ts (Some (withJpegMimeType md)) = Inr sg"
  using assms
  by (auto simp: signJpegWithExif_def bindE_def Let_def split: sum.splits)

lemma verifyJpegExif_restrips:
  assumes "jv_signature (verifyJpegExif pf cd img) = Some sg"
  shows "\<exists>clean v. exif_remove cd img = Inr clean \<and> verifyFileSignature pf sg clean = Inr v
           \<and> jv_valid (verifyJpegExif pf cd img) = valid v
           \<and> jv_errors (verifyJpegExif pf cd img) = errors v"
  using assms
  by (auto simp: verifyJpegExif_def bindE_def Let_def noSignatureFound_def
      split: sum.splits option.splits exifval.splits if_splits)

lemma verifyJpegExif_comment:
  assumes "exif_load cd img = Inr ob" and "ifdExif ob = Some ex"
    and "ex UserComment = Some (ExifString s)" and "s \<noteq> []"
    and "\<not> includesStr s ''Signature: ''"
    and "json_parse cd s = Some sg"
    and "exif_remove cd img = Inr clean"
    and "verifyFileSignature pf sg clean = Inr v"
  shows "verifyJpegExif pf cd img =
           \<lparr> jv_valid = valid v, jv_signature = Some sg, jv_errors = errors v \<rparr>"
  using assms by (simp add: verifyJpegExif_def bindE_def Let_def)

text \<open>
  When the user comment that comes back holds the text \<open>Signature: \<close> and the pattern
  matches in it, the verifier parses the matched part instead of the comment.
\<close>

lemma verifyJpegExif_pattern:
  assumes "exif_load cd img = Inr ob" and "ifdExif ob = Some ex"
    and "ex UserComment = Some (ExifString s)" and "s \<noteq> []"
    and "includesStr s ''Signature: ''"
    and "matchSignature s = Some g"
    and "json_parse cd g = None"
  shows "verifyJpegExif pf cd img =
           \<lparr> jv_valid = False, jv_signature = None,
             jv_errors = [''Failed to parse signature JSON from EXIF''] \<rparr>"
  using assms by (simp add: verifyJpegExif_def bindE_def Let_def)

text \<open>
  The round trip, for any codec: signing and then verifying the embedded image
  succeeds, with no errors, when the key pair is imported and matches; strip is
  idempotent on the stripped image; stripping the embedded image gives what stripping
  its base gives; \<open>dump\<close> and \<open>insert\<close> succeed and \<open>load\<close> of the embedded image
  returns the user comment that was written; the serialised signature parses back to a
  record with the same hash, size, public key and signature; and the verifier reads the
  whole user comment, which it does when the text \<open>Signature: \<close> is not in it.
\<close>

lemma signThenVerifyJpeg_whole_comment:
  assumes sk: "importKey_pkcs8 pf (privateKey kp) = Some sk"
    and pk: "importKey_raw pf (publicKey kp) = Some pk"
    and ok: "\<And>m. verify pf pk (sign pf sk m) m"
    and ob: "(case exif_load cd jpeg of Inl e \<Rightarrow> emptyExif | Inr x \<Rightarrow> x) = ob"
            "ifdExif ob = Some ex" "ifd0th ob = Some z"
    and strip: "exif_remove cd jpeg = Inr clean"
    and idem: "exif_remove cd clean = Inr clean"
    and sg: "signFile pf w filename clean kp ts (Some (withJpegMimeType md)) = Inr sg"
    and dump: "exif_dump cd
                 (ob \<lparr> ifdExif := Some (ex(UserComment \<mapsto> ExifString (json_stringify cd sg))),
                       ifd0th := Some (setStandardFields pf md z) \<rparr>) = Inr exifBytes"
    and ins: "exif_insert cd exifBytes clean = Inr signedJpeg"
    and undo: "exif_remove cd signedJpeg = exif_remove cd clean"
    and load: "exif_load cd signedJpeg = Inr ob'" "ifdExif ob' = Some ex'"
              "ex' UserComment = Some (ExifString (json_stringify cd sg))"
    and plain: "json_stringify cd sg \<noteq> []" "\<not> includesStr (json_stringify cd sg) ''Signature: ''"
    and parse: "json_parse cd (json_stringify cd sg) = Some sg'"
               "hash (fs_file sg') = hash (fs_file sg)" "fsize (fs_file sg') = fsize (fs_file sg)"
               "si_publicKey (fs_signature sg') = si_publicKey (fs_signature sg)"
               "si_signature (fs_signature sg') = si_signature (fs_signature sg)"
  shows "signJpegWithExif pf w cd jpeg filename kp ts md = Inr signedJpeg
       \<and> signThenVerifyJpeg pf w cd jpeg filename kp ts md
           = Inr \<lparr> jv_valid = True, jv_signature = Some sg', jv_errors = [] \<rparr>"
proof -
  have signedJpeg: "signJpegWithExif pf w cd jpeg filename kp ts md = Inr signedJpeg"
    using ob strip sg dump ins
    by (simp add: signJpegWithExif_def bindE_def Let_def)
  from sg signFile_Inr [OF sk] have sgv:
    "hash (fs_file sg) = bufferToHex (digest pf (buffer clean))"
    "fsize (fs_file sg) = int (arrayLength clean)"
    "si_publicKey (fs_signature sg) = bufferToHex (publicKey kp)"
    "si_signature (fs_signature sg) = bufferToHex (sign pf sk (digest pf (buffer clean)))"
    by auto
  have "verifyFileSignature pf sg' clean = Inr \<lparr> valid = True, errors = [] \<rparr>"
    using pk ok parse(2-5) sgv
    by (simp add: verifyFileSignature_def verifySignature_def bindE_def Let_def
        hex_round_trip)
  moreover have "exif_remove cd signedJpeg = Inr clean"
    using undo idem by simp
  ultimately have "verifyJpegExif pf cd signedJpeg
      = \<lparr> jv_valid = True, jv_signature = Some sg', jv_errors = [] \<rparr>"
    using verifyJpegExif_comment [OF load plain parse(1)] by fastforce
  with signedJpeg show ?thesis
    by (simp add: signThenVerifyJpeg_def bindE_def)
qed

subsection \<open>The small codec\<close>

lemma embedded_byte:
  assumes "ascii c"
  shows "\<not> isPicture (of_nat (of_char c + 128))"
    and "char_of (unat (of_nat (of_char c + 128) :: byte) - 128) = c"
proof -
  from assms have lt: "of_char c + 128 < (256 :: nat)" by (simp add: ascii_def)
  then have u: "unat (of_nat (of_char c + 128) :: byte) = of_char c + 128"
    by (simp add: unat_of_nat del: of_nat_add)
  show "\<not> isPicture (of_nat (of_char c + 128))"
    using u by (simp add: isPicture_def del: of_nat_add)
  show "char_of (unat (of_nat (of_char c + 128) :: byte) - 128) = c"
    using u by (simp del: of_nat_add)
qed

lemma embedded_comment:
  assumes "list_all ascii s"
  shows "map (\<lambda>b. char_of (unat b - 128))
           (filter (\<lambda>b. \<not> isPicture b) (map (\<lambda>c. of_nat (of_char c + 128)) s @ filter isPicture c)) = s"
    and "filter isPicture (map (\<lambda>c. of_nat (of_char c + 128)) s @ c) = filter isPicture c"
  using assms
  by (induction s) (simp_all add: embedded_byte del: of_nat_add)

lemma no_space_no_signature:
  "CHR '' '' \<notin> set s \<Longrightarrow> \<not> includesStr s ''Signature: ''"
proof (induction s)
  case Nil
  then show ?case by simp
next
  case (Cons c cs)
  have "\<not> startsWith (c # cs) ''Signature: ''"
  proof
    assume "startsWith (c # cs) ''Signature: ''"
    then have e: "take (length ''Signature: '') (c # cs) = ''Signature: ''"
      unfolding startsWith_def .
    have "CHR '' '' \<in> set (take (length ''Signature: '') (c # cs))"
      by (subst e) simp
    then have "CHR '' '' \<in> set (c # cs)" by (rule in_set_takeD)
    with Cons.prems show False by simp
  qed
  with Cons show ?case by simp
qed

lemma until_quote:
  assumes "list_all (\<lambda>c. \<not> isQuote c) a"
  shows "takeWhile (\<lambda>c. \<not> isQuote c) (a @ CHR 0x22 # r) = a"
    and "dropWhile (\<lambda>c. \<not> isQuote c) (a @ CHR 0x22 # r) = CHR 0x22 # r"
  using assms by (induction a) (simp_all add: isQuote_def)

lemma hexChar_plain:
  "isLowerHexChar c \<Longrightarrow> ascii c \<and> c \<noteq> CHR '' '' \<and> \<not> isQuote c"
  by (auto simp: isLowerHexChar_def ascii_def isQuote_def)

lemma digit_plain:
  "isDigit c \<Longrightarrow> ascii c \<and> c \<noteq> CHR '' '' \<and> \<not> isQuote c"
  by (auto simp: isDigit_def ascii_def isQuote_def)

lemma hex_plain:
  "list_all ascii (bufferToHex b)" "CHR '' '' \<notin> set (bufferToHex b)"
  "list_all (\<lambda>c. \<not> isQuote c) (bufferToHex b)"
  using lowerHex_bufferToHex [of b] hexChar_plain
  by (auto simp: list_all_iff)

lemma dec_plain:
  "list_all ascii (toString10 n)" "CHR '' '' \<notin> set (toString10 n)"
  "list_all (\<lambda>c. \<not> isQuote c) (toString10 n)"
  using toString10_digits [of n] digit_plain
  by (auto simp: list_all_iff)

lemma toString10_nonempty: "toString10 n \<noteq> []"
  by (subst toString10.simps) simp

lemma sampleParse_sampleStringify:
  assumes "list_all (\<lambda>c. \<not> isQuote c) (name (fs_file sg))"
    and "list_all (\<lambda>c. \<not> isQuote c) (hash (fs_file sg))"
    and "list_all (\<lambda>c. \<not> isQuote c) (si_publicKey (fs_signature sg))"
    and "list_all (\<lambda>c. \<not> isQuote c) (si_signature (fs_signature sg))"
    and "0 \<le> fsize (fs_file sg)"
  shows "sampleParse (sampleStringify sg) =
           Some \<lparr> version = ''1.0'',
                  fs_file = \<lparr> name = name (fs_file sg), hash = hash (fs_file sg),
                              fsize = fsize (fs_file sg), mimeType = None \<rparr>,
                  fs_signature = \<lparr> algorithm = ''Ed25519'',
                                   si_publicKey = si_publicKey (fs_signature sg),
                                   si_signature = si_signature (fs_signature sg),
                                   signedAt = [] \<rparr>,
                  fs_timestamp = \<lparr> authority = [], token = [], verifiedAt = [] \<rparr>,
                  metadata = None \<rparr>"
  using assms
  by (simp add: sampleParse_def sampleStringify_def expect_def startsWith_def until_quote
      dec_plain toString10_digits toString10_nonempty decimalValue_toString10)

lemma sampleStringify_ascii:
  assumes "list_all ascii (name (fs_file sg))" and "list_all ascii (hash (fs_file sg))"
    and "list_all ascii (si_publicKey (fs_signature sg))"
    and "list_all ascii (si_signature (fs_signature sg))"
  shows "list_all ascii (sampleStringify sg)"
  using assms by (simp add: sampleStringify_def dec_plain) (simp add: ascii_def)

lemma sampleStringify_no_space:
  assumes "CHR '' '' \<notin> set (name (fs_file sg))" and "CHR '' '' \<notin> set (hash (fs_file sg))"
    and "CHR '' '' \<notin> set (si_publicKey (fs_signature sg))"
    and "CHR '' '' \<notin> set (si_signature (fs_signature sg))"
  shows "CHR '' '' \<notin> set (sampleStringify sg)"
  using assms by (simp add: sampleStringify_def dec_plain)

lemma sampleStringify_nonempty: "sampleStringify sg \<noteq> []"
  by (simp add: sampleStringify_def)

lemma sample_signFile:
  "signFile samplePlatform sampleWorld fn (newUint8Array [1, 2, 3]) sampleKeypair sampleTimestamp
     (Some (withJpegMimeType None)) = Inr (sampleJpegSignature fn)"
  by (simp add: signFile_Inr [OF samplePlatform_keys(1)] sampleJpegSignature_def
      newUint8Array_fields)
     (simp add: samplePlatform_def sampleKeypair_def sampleWorld_def withJpegMimeType_def)

lemma codec_fields:
  "exif_load sampleCodec = sampleLoad"
  "exif_dump sampleCodec = sampleDump"
  "exif_insert sampleCodec = (\<lambda>e c. Inr (newUint8Array (e @ elements c)))"
  "exif_remove sampleCodec = (\<lambda>img. Inr (newUint8Array (filter isPicture (elements img))))"
  "json_stringify sampleCodec = sampleStringify"
  "json_parse sampleCodec = sampleParse"
  by (simp_all add: sampleCodec_def)

lemma picture_123 [simp]: "isPicture 1" "isPicture 2" "isPicture 3" "\<not> isPicture 200"
  by (simp_all add: isPicture_def)

lemma sampleJpeg_elements: "elements sampleJpeg = [1, 2, 200, 3]"
  by (simp add: sampleJpeg_def elements_def)

lemma sampleJpeg_strip: "exif_remove sampleCodec sampleJpeg = Inr (newUint8Array [1, 2, 3])"
  by (simp add: codec_fields sampleJpeg_elements)

lemma sampleCodec_idempotent:
  "bindE (exif_remove sampleCodec x) (exif_remove sampleCodec) = exif_remove sampleCodec x"
  by (simp add: codec_fields bindE_def newUint8Array_fields)

lemma sampleLoad_ifds:
  "ifdExif (case sampleLoad img of Inl e \<Rightarrow> emptyExif | Inr x \<Rightarrow> x) =
     Some ((\<lambda>t. None)(UserComment \<mapsto>
        ExifString (map (\<lambda>b. char_of (unat b - 128)) (filter (\<lambda>b. \<not> isPicture b) (elements img)))))"
  "ifd0th (case sampleLoad img of Inl e \<Rightarrow> emptyExif | Inr x \<Rightarrow> x) = Some (\<lambda>t. None)"
  by (simp_all add: sampleLoad_def emptyExif_def)

lemma sample_signJpegWithExif:
  "signJpegWithExif samplePlatform sampleWorld sampleCodec sampleJpeg fn sampleKeypair
     sampleTimestamp None = Inr (sampleEmbedded fn)"
  by (simp add: signJpegWithExif_def bindE_def Let_def sampleJpeg_strip sample_signFile)
     (simp add: codec_fields sampleLoad_ifds sampleDump_def sampleEmbedded_def
      newUint8Array_fields bindE_def)

lemma sampleJpegSignature_fields:
  "name (fs_file (sampleJpegSignature fn)) = fn"
  "hash (fs_file (sampleJpegSignature fn)) = bufferToHex (sampleDigest [1, 2, 3])"
  "fsize (fs_file (sampleJpegSignature fn)) = 3"
  "si_publicKey (fs_signature (sampleJpegSignature fn)) = bufferToHex (replicate 32 7)"
  "si_signature (fs_signature (sampleJpegSignature fn))
     = bufferToHex (sampleSign (replicate 32 7) (sampleDigest [1, 2, 3]))"
  by (simp_all add: sampleJpegSignature_def)

lemma sample_stringify_ascii:
  "list_all ascii fn \<Longrightarrow> list_all ascii (sampleStringify (sampleJpegSignature fn))"
  by (rule sampleStringify_ascii) (simp_all add: sampleJpegSignature_fields hex_plain)

lemma sample_load_embedded:
  assumes "list_all ascii fn"
  shows "sampleLoad (sampleEmbedded fn) =
           Inr (emptyExif \<lparr> ifdExif := Some ((\<lambda>t. None)(UserComment \<mapsto>
                  ExifString (sampleStringify (sampleJpegSignature fn)))) \<rparr>)"
  using embedded_comment(1) [OF sample_stringify_ascii [OF assms], of "[1, 2, 3]"]
  by (simp add: sampleLoad_def sampleEmbedded_def newUint8Array_fields)

lemma sample_strip_embedded:
  assumes "list_all ascii fn"
  shows "exif_remove sampleCodec (sampleEmbedded fn) = Inr (newUint8Array [1, 2, 3])"
  using embedded_comment(2) [OF sample_stringify_ascii [OF assms], of "[1, 2, 3]"]
  by (simp add: codec_fields sampleEmbedded_def newUint8Array_fields)

lemma sample_parse:
  assumes "list_all (\<lambda>c. \<not> isQuote c) fn"
  shows "sampleParse (sampleStringify (sampleJpegSignature fn)) = Some (sampleRead fn)"
  using assms
  by (simp add: sampleParse_sampleStringify sampleJpegSignature_fields hex_plain sampleRead_def)

lemma photo_plain:
  "list_all ascii ''photo.jpg''" "CHR '' '' \<notin> set ''photo.jpg''"
  "list_all (\<lambda>c. \<not> isQuote c) ''photo.jpg''"
  by (simp_all add: ascii_def isQuote_def)

lemma sample_no_pattern:
  "\<not> includesStr (sampleStringify (sampleJpegSignature ''photo.jpg'')) ''Signature: ''"
  by (rule no_space_no_signature, rule sampleStringify_no_space)
     (simp_all add: sampleJpegSignature_fields hex_plain)

text \<open>With the file name \<open>photo.jpg\<close> the round trip succeeds.\<close>

lemma photo_roundtrip:
  "signThenVerifyJpeg samplePlatform sampleWorld sampleCodec sampleJpeg ''photo.jpg''
     sampleKeypair sampleTimestamp None
   = Inr \<lparr> jv_valid = True, jv_signature = Some (sampleRead ''photo.jpg''), jv_errors = [] \<rparr>"
proof -
  let ?sg = "sampleJpegSignature ''photo.jpg''"
  let ?clean = "newUint8Array [1, 2, 3]"
  let ?ob = "case exif_load sampleCodec sampleJpeg of Inl e \<Rightarrow> emptyExif | Inr x \<Rightarrow> x"
  let ?ex = "(\<lambda>t. None)(UserComment \<mapsto>
        ExifString (map (\<lambda>b. char_of (unat b - 128))
                      (filter (\<lambda>b. \<not> isPicture b) (elements sampleJpeg))))"
  let ?z = "(\<lambda>t. None) :: nat \<Rightarrow> exifval option"
  let ?eb = "map (\<lambda>c. of_nat (of_char c + 128)) (sampleStringify ?sg) :: bytes"
  let ?ob' = "emptyExif \<lparr> ifdExif := Some ((\<lambda>t. None)(UserComment \<mapsto>
                  ExifString (sampleStringify ?sg))) \<rparr>"
  have h_ob: "?ob = ?ob" "ifdExif ?ob = Some ?ex" "ifd0th ?ob = Some ?z"
    by (simp_all add: codec_fields sampleLoad_ifds)
  note h_strip = sampleJpeg_strip
  have h_idem: "exif_remove sampleCodec ?clean = Inr ?clean"
    by (simp add: codec_fields newUint8Array_fields)
  note h_sg = sample_signFile [of "''photo.jpg''"]
  have h_dump: "exif_dump sampleCodec
      (?ob \<lparr> ifdExif := Some (?ex(UserComment \<mapsto> ExifString (json_stringify sampleCodec ?sg))),
             ifd0th := Some (setStandardFields samplePlatform None ?z) \<rparr>) = Inr ?eb"
    by (simp add: codec_fields sampleDump_def)
  have h_ins: "exif_insert sampleCodec ?eb ?clean = Inr (sampleEmbedded ''photo.jpg'')"
    by (simp add: codec_fields sampleEmbedded_def newUint8Array_fields)
  have h_undo: "exif_remove sampleCodec (sampleEmbedded ''photo.jpg'')
                  = exif_remove sampleCodec ?clean"
    by (simp add: sample_strip_embedded [OF photo_plain(1)] h_idem)
  have h_load: "exif_load sampleCodec (sampleEmbedded ''photo.jpg'') = Inr ?ob'"
    "ifdExif ?ob' = Some ((\<lambda>t. None)(UserComment \<mapsto> ExifString (sampleStringify ?sg)))"
    "((\<lambda>t. None)(UserComment \<mapsto> ExifString (sampleStringify ?sg))) UserComment
       = Some (ExifString (json_stringify sampleCodec ?sg))"
    by (simp_all add: codec_fields sample_load_embedded [OF photo_plain(1)])
  have h_plain: "json_stringify sampleCodec ?sg \<noteq> []"
    "\<not> includesStr (json_stringify sampleCodec ?sg) ''Signature: ''"
    by (simp_all add: codec_fields sampleStringify_nonempty sample_no_pattern)
  have h_parse: "json_parse sampleCodec (json_stringify sampleCodec ?sg) = Some (sampleRead ''photo.jpg'')"
    "hash (fs_file (sampleRead ''photo.jpg'')) = hash (fs_file ?sg)"
    "fsize (fs_file (sampleRead ''photo.jpg'')) = fsize (fs_file ?sg)"
    "si_publicKey (fs_signature (sampleRead ''photo.jpg'')) = si_publicKey (fs_signature ?sg)"
    "si_signature (fs_signature (sampleRead ''photo.jpg'')) = si_signature (fs_signature ?sg)"
    by (simp add: codec_fields sample_parse [OF photo_plain(3)])
       (simp_all add: sampleRead_def sampleJpegSignature_def)
  from signThenVerifyJpeg_whole_comment [OF samplePlatform_keys(1) samplePlatform_keys(2)
      samplePlatform_keys(3) h_ob h_strip h_idem h_sg h_dump h_ins h_undo h_load h_plain h_parse]
  show ?thesis by blast
qed

text \<open>
  With the file name \<open>Signature: {a}\<close> the serialised signature holds the text
  \<open>Signature: \<close> followed by a brace, the pattern matches from that brace on, and what
  it captures is not the JSON that was written.
\<close>

lemma matchBraces_a:
  "\<exists>g. matchBraces (CHR ''{'' # CHR ''a'' # CHR ''}'' # r) = Some (CHR ''{'' # CHR ''a'' # g)"
proof -
  define run where "run = takeWhile (\<lambda>x. \<not> isLineTerminator x) (CHR ''a'' # CHR ''}'' # r)"
  define ends where "ends = filter (\<lambda>j. 1 \<le> j \<and> run ! j = CHR ''}'') [0..<length run]"
  have run: "run = CHR ''a'' # CHR ''}'' # takeWhile (\<lambda>x. \<not> isLineTerminator x) r"
    by (simp add: run_def isLineTerminator_def)
  have "1 < length run" and "run ! 1 = CHR ''}''"
    by (simp_all add: run)
  then have "1 \<in> set ends"
    by (simp add: ends_def)
  then have ne: "ends \<noteq> []" by auto
  have tk: "take (Suc (last ends)) run = CHR ''a'' # take (last ends) (tl run)"
    by (simp add: run)
  have "matchBraces (CHR ''{'' # CHR ''a'' # CHR ''}'' # r)
          = (if ends = [] then None else Some (CHR ''{'' # take (Suc (last ends)) run))"
    unfolding matchBraces_def run_def ends_def Let_def by simp
  with ne tk show ?thesis by simp
qed

lemma matchSignature_in_name:
  "\<exists>g. matchSignature (''{\"name\":\"Signature: {a}'' @ r) = Some (CHR ''{'' # CHR ''a'' # g)"
proof -
  obtain g where "matchBraces (CHR ''{'' # CHR ''a'' # CHR ''}'' # r)
      = Some (CHR ''{'' # CHR ''a'' # g)"
    using matchBraces_a by blast
  then show ?thesis
    by (simp add: startsWith_def)
qed

lemma pattern_in_name:
  "includesStr (sampleStringify (sampleJpegSignature ''Signature: {a}'')) ''Signature: ''"
  "\<exists>g. matchSignature (sampleStringify (sampleJpegSignature ''Signature: {a}''))
         = Some (CHR ''{'' # CHR ''a'' # g)"
proof -
  have shape: "sampleStringify (sampleJpegSignature ''Signature: {a}'')
      = ''{\"name\":\"Signature: {a}'' @ drop 23 (sampleStringify (sampleJpegSignature ''Signature: {a}''))"
    by (simp add: sampleStringify_def sampleJpegSignature_fields)
  show "includesStr (sampleStringify (sampleJpegSignature ''Signature: {a}'')) ''Signature: ''"
    by (subst shape) (simp add: startsWith_def)
  show "\<exists>g. matchSignature (sampleStringify (sampleJpegSignature ''Signature: {a}''))
         = Some (CHR ''{'' # CHR ''a'' # g)"
    by (subst shape) (rule matchSignature_in_name)
qed

lemma sampleParse_rejects: "sampleParse (CHR ''{'' # CHR ''a'' # g) = None"
  by (simp add: sampleParse_def expect_def startsWith_def)

lemma pattern_roundtrip:
  "signThenVerifyJpeg samplePlatform sampleWorld sampleCodec sampleJpeg ''Signature: {a}''
     sampleKeypair sampleTimestamp None
   = Inr \<lparr> jv_valid = False, jv_signature = None,
           jv_errors = [''Failed to parse signature JSON from EXIF''] \<rparr>"
proof -
  have ascii: "list_all ascii ''Signature: {a}''" by (simp add: ascii_def)
  obtain g where g: "matchSignature (sampleStringify (sampleJpegSignature ''Signature: {a}''))
         = Some (CHR ''{'' # CHR ''a'' # g)"
    using pattern_in_name(2) by blast
  have "verifyJpegExif samplePlatform sampleCodec (sampleEmbedded ''Signature: {a}'')
      = \<lparr> jv_valid = False, jv_signature = None,
          jv_errors = [''Failed to parse signature JSON from EXIF''] \<rparr>"
    using verifyJpegExif_pattern [where cd = sampleCodec and pf = samplePlatform
        and img = "sampleEmbedded ''Signature: {a}''"
        and s = "sampleStringify (sampleJpegSignature ''Signature: {a}'')",
        OF _ _ _ sampleStringify_nonempty pattern_in_name(1) g]
    by (simp add: codec_fields sample_load_embedded [OF ascii] sampleParse_rejects)
  then show ?thesis
    by (simp add: signThenVerifyJpeg_def bindE_def sample_signJpegWithExif)
qed

text \<open>
  Claim C9. The claim is that verifying the output of \<open>signJpegWithExif\<close> succeeds for
  every JPEG image when strip is idempotent; the repository's test
  \<open>Node: JPEG EXIF signing and verification\<close> expects the same. The code does not
  deliver it for every input: the verifier looks for the text \<open>Signature: \<close> in the
  user comment, which holds the JSON the signer wrote, and that JSON holds the file
  name. On the small codec, whose strip is idempotent and undoes \<open>insert\<close>, the image
  signed under the name \<open>photo.jpg\<close> verifies, and the same image signed under the
  name \<open>Signature: {a}\<close>, with the same keys, is reported invalid with the error
  \<open>Failed to parse signature JSON from EXIF\<close>.
\<close>

theorem signThenVerifyJpeg_fails_on_pattern_in_name:
  "(\<forall>x. bindE (exif_remove sampleCodec x) (exif_remove sampleCodec) = exif_remove sampleCodec x)
   \<and> exif_remove sampleCodec (sampleEmbedded ''Signature: {a}'') = exif_remove sampleCodec sampleJpeg
   \<and> signThenVerifyJpeg samplePlatform sampleWorld sampleCodec sampleJpeg ''photo.jpg''
        sampleKeypair sampleTimestamp None
      = Inr \<lparr> jv_valid = True, jv_signature = Some (sampleRead ''photo.jpg''), jv_errors = [] \<rparr>
   \<and> signJpegWithExif samplePlatform sampleWorld sampleCodec sampleJpeg ''Signature: {a}''
        sampleKeypair sampleTimestamp None = Inr (sampleEmbedded ''Signature: {a}'')
   \<and> verifyJpegExif samplePlatform sampleCodec (sampleEmbedded ''Signature: {a}'')
      = \<lparr> jv_valid = False, jv_signature = None,
          jv_errors = [''Failed to parse signature JSON from EXIF''] \<rparr>
   \<and> signThenVerifyJpeg samplePlatform sampleWorld sampleCodec sampleJpeg ''Signature: {a}''
        sampleKeypair sampleTimestamp None
      = Inr \<lparr> jv_valid = False, jv_signature = None,
              jv_errors = [''Failed to parse signature JSON from EXIF''] \<rparr>"
proof -
  have ascii: "list_all ascii ''Signature: {a}''" by (simp add: ascii_def)
  have strip: "exif_remove sampleCodec (sampleEmbedded ''Signature: {a}'')
                 = exif_remove sampleCodec sampleJpeg"
    by (simp add: sample_strip_embedded [OF ascii] sampleJpeg_strip)
  have run: "signThenVerifyJpeg samplePlatform sampleWorld sampleCodec sampleJpeg ''Signature: {a}''
        sampleKeypair sampleTimestamp None
      = Inr (verifyJpegExif samplePlatform sampleCodec (sampleEmbedded ''Signature: {a}''))"
    by (simp add: signThenVerifyJpeg_def bindE_def sample_signJpegWithExif)
  show ?thesis
    using sampleCodec_idempotent strip photo_roundtrip pattern_roundtrip run
      sample_signJpegWithExif [of "''Signature: {a}''"]
    by simp
qed

end
